theory Spec2Isabelle
  imports Complex_Main "HOL-Library.Sublist"
begin

section \<open>Common parts of fLPSparameters.c and SEGparameters.c\<close>

text \<open>
  The two programs share their command-line handling and the shape of their globals.

  A C \<^verbatim>\<open>int\<close> is modelled by \<open>int\<close>, with the wrap-around of 32 bits written
  out where a value can leave the range: \<open>int32\<close> at a subtraction from \<^verbatim>\<open>big_m\<close>,
  \<open>double_to_int\<close> at a conversion, \<open>sscanf_d\<close> where \<^verbatim>\<open>-l\<close> is read.

  A C \<^verbatim>\<open>double\<close> is modelled by \<open>double\<close>: a real number, an infinity or NaN.
  The arithmetic on the real numbers is the exact one: the rounding of IEEE doubles,
  overflow and the sign of zero are left out. \<^verbatim>\<open>threshold\<close> (fLPS) is a \<open>real\<close>:
  it is only ever assigned a constant or a linear function of the target length.
\<close>

datatype calculation_type = DIVERSE | NARROW

subsection \<open>Doubles\<close>

datatype double = Fin real | PInf | MInf | NaN

instantiation double :: "{uminus, plus, minus, times, inverse, ord}"
begin

fun uminus_double :: "double \<Rightarrow> double" where
  "uminus_double (Fin a) = Fin (- a)"
| "uminus_double PInf = MInf"
| "uminus_double MInf = PInf"
| "uminus_double NaN = NaN"

fun plus_double :: "double \<Rightarrow> double \<Rightarrow> double" where
  "plus_double (Fin a) (Fin b) = Fin (a + b)"
| "plus_double NaN y = NaN"
| "plus_double x NaN = NaN"
| "plus_double PInf MInf = NaN"
| "plus_double MInf PInf = NaN"
| "plus_double PInf y = PInf"
| "plus_double x PInf = PInf"
| "plus_double MInf y = MInf"
| "plus_double x MInf = MInf"

definition minus_double :: "double \<Rightarrow> double \<Rightarrow> double" where
  "minus_double (x :: double) y = x + (- y)"

fun times_double :: "double \<Rightarrow> double \<Rightarrow> double" where
  "times_double (Fin a) (Fin b) = Fin (a * b)"
| "times_double NaN y = NaN"
| "times_double x NaN = NaN"
| "times_double PInf (Fin b) = (if b = 0 then NaN else if 0 < b then PInf else MInf)"
| "times_double MInf (Fin b) = (if b = 0 then NaN else if 0 < b then MInf else PInf)"
| "times_double (Fin a) PInf = (if a = 0 then NaN else if 0 < a then PInf else MInf)"
| "times_double (Fin a) MInf = (if a = 0 then NaN else if 0 < a then MInf else PInf)"
| "times_double PInf PInf = PInf"
| "times_double PInf MInf = MInf"
| "times_double MInf PInf = MInf"
| "times_double MInf MInf = PInf"

fun divide_double :: "double \<Rightarrow> double \<Rightarrow> double" where
  "divide_double (Fin a) (Fin b) =
     (if b = 0 then (if a = 0 then NaN else if 0 < a then PInf else MInf) else Fin (a / b))"
| "divide_double NaN y = NaN"
| "divide_double x NaN = NaN"
| "divide_double (Fin a) PInf = Fin 0"
| "divide_double (Fin a) MInf = Fin 0"
| "divide_double PInf (Fin b) = (if 0 \<le> b then PInf else MInf)"
| "divide_double MInf (Fin b) = (if 0 \<le> b then MInf else PInf)"
| "divide_double x y = NaN"

fun inverse_double :: "double \<Rightarrow> double" where
  "inverse_double (Fin a) = (if a = 0 then PInf else Fin (1 / a))"
| "inverse_double PInf = Fin 0"
| "inverse_double MInf = Fin 0"
| "inverse_double NaN = NaN"

text \<open>The comparisons of C: every comparison with NaN is false.\<close>

fun less_eq_double :: "double \<Rightarrow> double \<Rightarrow> bool" where
  "less_eq_double (Fin a) (Fin b) = (a \<le> b)"
| "less_eq_double NaN y = False"
| "less_eq_double x NaN = False"
| "less_eq_double MInf y = True"
| "less_eq_double x PInf = True"
| "less_eq_double x y = False"

fun less_double :: "double \<Rightarrow> double \<Rightarrow> bool" where
  "less_double (Fin a) (Fin b) = (a < b)"
| "less_double NaN y = False"
| "less_double x NaN = False"
| "less_double MInf MInf = False"
| "less_double PInf PInf = False"
| "less_double MInf y = True"
| "less_double x PInf = True"
| "less_double x y = False"

instance ..

end

text \<open>
  \<^verbatim>\<open>pow\<close> and \<^verbatim>\<open>log\<close> of libm. Every call in the two programs has finite
  arguments (a converted int, a constant, \<^verbatim>\<open>threshold\<close>), so the arguments are reals;
  the result is a double. A negative base with an exponent that is not an integer, and
  the logarithm of a negative number, are NaN.
\<close>

definition c_pow :: "real \<Rightarrow> real \<Rightarrow> double" where
  "c_pow x y =
     (if y = 0 then Fin 1
      else if 0 < x then Fin (x powr y)
      else if x = 0 then (if 0 < y then Fin 0 else PInf)
      else if y = real_of_int \<lfloor>y\<rfloor>
      then Fin (if even \<lfloor>y\<rfloor> then \<bar>x\<bar> powr y else - (\<bar>x\<bar> powr y))
      else NaN)"

definition c_log :: "real \<Rightarrow> double" where
  "c_log x = (if 0 < x then Fin (ln x) else if x = 0 then MInf else NaN)"

text \<open>C's \<^verbatim>\<open>round\<close>: to the nearest integer, halfway cases away from zero.\<close>

fun c_round :: "double \<Rightarrow> double" where
  "c_round (Fin x) = Fin (real_of_int (if 0 \<le> x then \<lfloor>x + 1 / 2\<rfloor> else \<lceil>x - 1 / 2\<rceil>))"
| "c_round d = d"

text \<open>
  The conversion of a double to \<^verbatim>\<open>int\<close>: truncation. For NaN, an infinity or a value
  out of range the C standard leaves the result open; the model takes what the conversion
  instruction of x86-64 gives, the least int.
\<close>

fun double_to_int :: "double \<Rightarrow> int" where
  "double_to_int (Fin x) =
     (let t = (if 0 \<le> x then \<lfloor>x\<rfloor> else \<lceil>x\<rceil>)
      in if - 2147483648 \<le> t \<and> t \<le> 2147483647 then t else - 2147483648)"
| "double_to_int d = - 2147483648"

text \<open>An integer reduced to the 32 bits of an \<^verbatim>\<open>int\<close> (two's complement).\<close>

definition int32 :: "int \<Rightarrow> int" where
  "int32 i = (i + 2147483648) mod 4294967296 - 2147483648"

subsection \<open>Output\<close>

text \<open>\<^verbatim>\<open>printf("%d")\<close>.\<close>

fun digits :: "nat \<Rightarrow> string" where
  "digits n =
     (if n < 10 then [''0123456789'' ! n]
      else digits (n div 10) @ [''0123456789'' ! (n mod 10)])"

declare digits.simps [simp del]

definition fmt_d :: "int \<Rightarrow> string" where
  "fmt_d i = (if i < 0 then CHR ''-'' # digits (nat (- i)) else digits (nat i))"

definition tab :: char where
  "tab = CHR 0x09"

definition nl :: char where
  "nl = CHR 0x0A"

text \<open>
  What a program writes. A row of valid parameters keeps the arguments of its
  \<^verbatim>\<open>printf\<close> (the formats \<^verbatim>\<open>%.1le\<close> and \<^verbatim>\<open>%.2lf\<close> of a double are not rendered);
  an NA line is the printed text itself. The header and the footer are fixed text.
\<close>

datatype line =
    Header int calculation_type
  | Row_mMt int int int double
  | Row_LK int int double double
  | Text string
  | Footer

datatype err_line =
    Help_text
  | Out_of_bounds_warning
  | Requires_a_value char
  | Unrecognized_option char

record globals =
  focus :: calculation_type
  target_length :: int
  not_valid :: int
  stdout :: "line list"
  stderr :: "err_line list"

text \<open>A C \<^verbatim>\<open>if (c) { stmt }\<close> with no else branch.\<close>

definition c_when :: "bool \<Rightarrow> ('s \<Rightarrow> 's) \<Rightarrow> 's \<Rightarrow> 's" where
  "c_when c stmt s = (if c then stmt s else s)"

definition printf :: "line \<Rightarrow> 'a globals_scheme \<Rightarrow> 'a globals_scheme" where
  "printf l s = s\<lparr>stdout := stdout s @ [l]\<rparr>"

definition fprintf_stderr :: "err_line \<Rightarrow> 'a globals_scheme \<Rightarrow> 'a globals_scheme" where
  "fprintf_stderr e s = s\<lparr>stderr := stderr s @ [e]\<rparr>"

definition print_help :: "'a globals_scheme \<Rightarrow> 'a globals_scheme" where
  "print_help s = fprintf_stderr Help_text s"

subsection \<open>Command-line options\<close>

text \<open>
  One value per return of \<^verbatim>\<open>getopt(argc, argv, "hf:l:")\<close>: the option character with
  \<^verbatim>\<open>optarg\<close> or \<^verbatim>\<open>optopt\<close>. For \<^verbatim>\<open>-l\<close> the argument is the integer that
  \<^verbatim>\<open>sscanf(optarg, "%d", ...)\<close> reads: \<open>Some n\<close>, or \<open>None\<close> when nothing converts and
  \<^verbatim>\<open>target_length\<close> keeps its value.
\<close>

datatype getopt_result =
    Opt_h
  | Opt_f string
  | Opt_l "int option"
  | Opt_colon char
  | Opt_question char

text \<open>
  What \<^verbatim>\<open>sscanf("%d")\<close> stores in the \<^verbatim>\<open>int\<close> when it reads the integer \<open>v\<close>: the
  C library (glibc, 64-bit \<^verbatim>\<open>long\<close>) converts to a \<^verbatim>\<open>long\<close>, at most the greatest
  and at least the least one, and keeps its low 32 bits. An integer that an \<^verbatim>\<open>int\<close>
  holds is stored as it is.
\<close>

definition sscanf_d :: "int \<Rightarrow> int" where
  "sscanf_d v = int32 (max (- 9223372036854775808) (min 9223372036854775807 v))"

definition case_f :: "string \<Rightarrow> 'a globals_scheme \<Rightarrow> 'a globals_scheme" where
  "case_f optarg s = (if optarg = ''narrow'' then s\<lparr>focus := NARROW\<rparr> else s\<lparr>focus := DIVERSE\<rparr>)"

definition case_l :: "int option \<Rightarrow> 'a globals_scheme \<Rightarrow> 'a globals_scheme" where
  "case_l scanned s0 =
     (let s1 = (case scanned of Some n \<Rightarrow> s0\<lparr>target_length := sscanf_d n\<rparr> | None \<Rightarrow> s0)
      in c_when (target_length s1 < 5 \<or> target_length s1 > 300)
           (\<lambda>s. (fprintf_stderr Out_of_bounds_warning s)\<lparr>target_length := 15\<rparr>) s1)"

text \<open>
  The \<^verbatim>\<open>while\<close> loop over the options, with the local \<^verbatim>\<open>errflg\<close>. \<open>Inl\<close> is the
  \<^verbatim>\<open>exit(0)\<close> of \<^verbatim>\<open>-h\<close>; \<open>Inr\<close> is the end of the loop.
\<close>

fun getopt_loop ::
  "getopt_result list \<Rightarrow> nat \<Rightarrow> 'a globals_scheme \<Rightarrow>
     (int \<times> 'a globals_scheme) + (nat \<times> 'a globals_scheme)" where
  "getopt_loop [] errflg s = Inr (errflg, s)"
| "getopt_loop (Opt_h # cs) errflg s = Inl (0, print_help s)"
| "getopt_loop (Opt_f optarg # cs) errflg s = getopt_loop cs errflg (case_f optarg s)"
| "getopt_loop (Opt_l scanned # cs) errflg s = getopt_loop cs errflg (case_l scanned s)"
| "getopt_loop (Opt_colon optopt # cs) errflg s =
     getopt_loop cs (errflg + 1) (fprintf_stderr (Requires_a_value optopt) s)"
| "getopt_loop (Opt_question optopt # cs) errflg s =
     getopt_loop cs (errflg + 1) (fprintf_stderr (Unrecognized_option optopt) s)"

definition header :: "'a globals_scheme \<Rightarrow> 'a globals_scheme" where
  "header s = printf (Header (target_length s) (focus s)) s"

definition footer :: "'a globals_scheme \<Rightarrow> 'a globals_scheme" where
  "footer s = printf Footer s"

section \<open>fLPSparameters.c\<close>

text \<open>
  \<open>flps_calls\<close> is not a variable of the program: it is the history of the calls of
  \<^verbatim>\<open>output_parameters\<close>, each with its two arguments and the globals \<^verbatim>\<open>small_m\<close>,
  \<^verbatim>\<open>big_m\<close> and \<^verbatim>\<open>threshold\<close> that the call reads.
\<close>

record flps_globals = globals +
  small_m :: int
  big_m :: int
  max_m :: int
  threshold :: real
  flps_calls :: "(int \<times> int \<times> int \<times> int \<times> real) list"

text \<open>The globals at program start: zero, but \<^verbatim>\<open>target_length = -1\<close>.\<close>

definition flps_init :: flps_globals where
  "flps_init = \<lparr>focus = DIVERSE, target_length = -1, not_valid = 0, stdout = [], stderr = [],
     small_m = 0, big_m = 0, max_m = 0, threshold = 0, flps_calls = []\<rparr>"

text \<open>\<^verbatim>\<open>"\t~%d%%\t\t\tNA [ target length <5 OR >%d, OR t>0.001]\n"\<close>\<close>

definition flps_na :: "int \<Rightarrow> int \<Rightarrow> string" where
  "flps_na coverage upper_bound =
     [tab] @ ''~'' @ fmt_d coverage @ ''%'' @ [tab, tab, tab] @
     ''NA [ target length <5 OR >'' @ fmt_d upper_bound @ '', OR t>0.001]'' @ [nl]"

definition flps_output_parameters :: "int \<Rightarrow> int \<Rightarrow> flps_globals \<Rightarrow> flps_globals" where
  "flps_output_parameters upper_bound coverage s =
     (let s0 = s\<lparr>flps_calls := flps_calls s
                  @ [(upper_bound, coverage, small_m s, big_m s, threshold s)]\<rparr>;
          s1 = c_when (target_length s0 < 5 \<or> target_length s0 > upper_bound)
                 (\<lambda>s. s\<lparr>not_valid := 1\<rparr>) s0;
          s2 = c_when (threshold s1 > - 3.0) (\<lambda>s. s\<lparr>not_valid := 1\<rparr>) s1;
          s3 = c_when (small_m s2 < 5) (\<lambda>s. s\<lparr>not_valid := 1\<rparr>) s2;
          s4 = c_when (target_length s3 < 50 \<and> focus s3 = NARROW \<and> coverage = 25)
                 (\<lambda>s. s\<lparr>not_valid := 1\<rparr>) s3;
          s5 = c_when (target_length s4 < 100 \<and> focus s4 = NARROW \<and> coverage = 40)
                 (\<lambda>s. s\<lparr>not_valid := 1\<rparr>) s4;
          s6 = c_when (target_length s5 \<le> 15 \<and> focus s5 = DIVERSE \<and> coverage = 40)
                 (\<lambda>s. s\<lparr>not_valid := 1\<rparr>) s5;
          s7 = c_when (target_length s6 \<le> 10 \<and> focus s6 = NARROW)
                 (\<lambda>s. s\<lparr>not_valid := 1\<rparr>) s6
      in if not_valid s7 = 0
         then printf (Row_mMt coverage (small_m s7) (big_m s7) (c_pow 10.0 (threshold s7))) s7
         else printf (Text (flps_na coverage upper_bound)) s7)"

subsection \<open>The rows of \<^verbatim>\<open>main\<close>, focus DIVERSE\<close>

text \<open>
  Each row of \<^verbatim>\<open>main\<close> is a block of assignments to the globals followed by the call
  \<^verbatim>\<open>output_parameters(max_m, cov)\<close>. The assignments of a row are \<open>..._set\<close>, the whole
  row is the function without the suffix.
\<close>

definition flps_diverse_2_set :: "flps_globals \<Rightarrow> flps_globals" where
  "flps_diverse_2_set s0 =
     (let s1 = s0\<lparr>big_m := double_to_int (c_round (Fin 2.534 * c_pow (real_of_int (target_length s0)) 0.506))\<rparr>;
          s2 = s1\<lparr>small_m := int32 (big_m s1 - 2)\<rparr>;
          s3 = s2\<lparr>threshold := - 0.153 * real_of_int (target_length s2) - 3.994\<rparr>
      in s3\<lparr>max_m := 100\<rparr>)"

definition flps_diverse_2 :: "flps_globals \<Rightarrow> flps_globals" where
  "flps_diverse_2 s = (let s' = flps_diverse_2_set s in flps_output_parameters (max_m s') 2 s')"

definition flps_diverse_5_set :: "flps_globals \<Rightarrow> flps_globals" where
  "flps_diverse_5_set s =
     (let s0 = s\<lparr>not_valid := 0\<rparr>;
          s1 = s0\<lparr>big_m := double_to_int (c_round (Fin 3.46 * c_pow (real_of_int (target_length s0)) 0.508))\<rparr>;
          s2 = s1\<lparr>small_m := int32 (big_m s1 - 4)\<rparr>;
          s3 = s2\<lparr>threshold := - 0.098 * real_of_int (target_length s2) - 3.305\<rparr>
      in s3\<lparr>max_m := 200\<rparr>)"

definition flps_diverse_5 :: "flps_globals \<Rightarrow> flps_globals" where
  "flps_diverse_5 s = (let s' = flps_diverse_5_set s in flps_output_parameters (max_m s') 5 s')"

definition flps_diverse_10_set :: "flps_globals \<Rightarrow> flps_globals" where
  "flps_diverse_10_set s =
     (let s0 = s\<lparr>not_valid := 0\<rparr>;
          s1 = s0\<lparr>big_m := double_to_int (c_round (Fin 3.912 * c_pow (real_of_int (target_length s0)) 0.543))\<rparr>;
          s2 = s1\<lparr>small_m := int32 (big_m s1 - 10)\<rparr>;
          s3 = s2\<lparr>threshold := - 0.055 * real_of_int (target_length s2) - 3.635\<rparr>
      in s3\<lparr>max_m := 250\<rparr>)"

definition flps_diverse_10 :: "flps_globals \<Rightarrow> flps_globals" where
  "flps_diverse_10 s = (let s' = flps_diverse_10_set s in flps_output_parameters (max_m s') 10 s')"

definition flps_diverse_25_set :: "flps_globals \<Rightarrow> flps_globals" where
  "flps_diverse_25_set s =
     (let s0 = s\<lparr>not_valid := 0\<rparr>;
          s3 = (if target_length s0 \<le> 105
                then (let s1 = s0\<lparr>big_m := double_to_int (c_round (Fin 5.647 * c_pow (real_of_int (target_length s0)) 0.56))\<rparr>;
                          s2 = s1\<lparr>small_m := double_to_int (c_round (Fin 0.872 * c_pow (real_of_int (target_length s1)) 0.797))\<rparr>
                      in s2\<lparr>threshold := - 0.039 * real_of_int (target_length s2) - 2.381\<rparr>)
                else (let s1 = s0\<lparr>big_m := double_to_int (c_round (Fin 6.096 * c_pow (real_of_int (target_length s0)) 0.552))\<rparr>;
                          s2 = s1\<lparr>small_m := int32 (big_m s1 - 50)\<rparr>
                      in s2\<lparr>threshold := - 0.031 * real_of_int (target_length s2) - 2.93\<rparr>))
      in s3\<lparr>max_m := 300\<rparr>)"

definition flps_diverse_25 :: "flps_globals \<Rightarrow> flps_globals" where
  "flps_diverse_25 s = (let s' = flps_diverse_25_set s in flps_output_parameters (max_m s') 25 s')"

definition flps_diverse_40_set :: "flps_globals \<Rightarrow> flps_globals" where
  "flps_diverse_40_set s =
     (let s0 = s\<lparr>not_valid := 0\<rparr>;
          s3 = (if target_length s0 \<le> 105
                then (let s1 = s0\<lparr>big_m := double_to_int (c_round (Fin 9.82 * c_pow (real_of_int (target_length s0)) 0.522))\<rparr>;
                          s2 = s1\<lparr>small_m := double_to_int (c_round (Fin 0.481 * c_pow (real_of_int (target_length s1)) 0.876))\<rparr>
                      in s2\<lparr>threshold := - 0.022 * real_of_int (target_length s2) - 2.709\<rparr>)
                else (let s1 = s0\<lparr>big_m := double_to_int (c_round (Fin 11.126 * c_pow (real_of_int (target_length s0)) 0.484))\<rparr>;
                          s2 = s1\<lparr>small_m := int32 (big_m s1 - 80)\<rparr>
                      in s2\<lparr>threshold := - 0.025 * real_of_int (target_length s2) - 2.762\<rparr>))
      in s3\<lparr>max_m := 300\<rparr>)"

definition flps_diverse_40 :: "flps_globals \<Rightarrow> flps_globals" where
  "flps_diverse_40 s = (let s' = flps_diverse_40_set s in flps_output_parameters (max_m s') 40 s')"

subsection \<open>The rows of \<^verbatim>\<open>main\<close>, focus NARROW\<close>

definition flps_narrow_2_set :: "flps_globals \<Rightarrow> flps_globals" where
  "flps_narrow_2_set s0 =
     (let s1 = s0\<lparr>big_m := double_to_int (c_round (Fin 2.324 * c_pow (real_of_int (target_length s0)) 0.539))\<rparr>;
          s2 = s1\<lparr>small_m := big_m s1\<rparr>;
          s3 = s2\<lparr>threshold := - 0.149 * real_of_int (target_length s2) - 3.883\<rparr>
      in s3\<lparr>max_m := 100\<rparr>)"

definition flps_narrow_2 :: "flps_globals \<Rightarrow> flps_globals" where
  "flps_narrow_2 s = (let s' = flps_narrow_2_set s in flps_output_parameters (max_m s') 2 s')"

definition flps_narrow_5_set :: "flps_globals \<Rightarrow> flps_globals" where
  "flps_narrow_5_set s =
     (let s0 = s\<lparr>not_valid := 0\<rparr>;
          s1 = s0\<lparr>big_m := double_to_int (c_round (Fin 2.976 * c_pow (real_of_int (target_length s0)) 0.556))\<rparr>;
          s2 = s1\<lparr>small_m := big_m s1\<rparr>;
          s3 = (if target_length s2 \<le> 28
                then s2\<lparr>threshold := - 0.127 * real_of_int (target_length s2) - 2.183\<rparr>
                else if target_length s2 \<ge> 33
                then s2\<lparr>threshold := - 0.09 * real_of_int (target_length s2) - 3.173\<rparr>
                else s2\<lparr>threshold :=
                       ((- 0.127 * real_of_int (target_length s2) - 2.183)
                        + (- 0.09 * real_of_int (target_length s2) - 3.173)) / 2.0\<rparr>)
      in s3\<lparr>max_m := 200\<rparr>)"

definition flps_narrow_5 :: "flps_globals \<Rightarrow> flps_globals" where
  "flps_narrow_5 s = (let s' = flps_narrow_5_set s in flps_output_parameters (max_m s') 5 s')"

definition flps_narrow_10_set :: "flps_globals \<Rightarrow> flps_globals" where
  "flps_narrow_10_set s =
     (let s0 = s\<lparr>not_valid := 0\<rparr>;
          s1 = s0\<lparr>big_m := double_to_int (c_round (Fin 3.493 * c_pow (real_of_int (target_length s0)) 0.572))\<rparr>;
          s2 = s1\<lparr>small_m := big_m s1\<rparr>;
          s3 = s2\<lparr>threshold := - 0.058 * real_of_int (target_length s2) - 2.731\<rparr>
      in s3\<lparr>max_m := 200\<rparr>)"

definition flps_narrow_10 :: "flps_globals \<Rightarrow> flps_globals" where
  "flps_narrow_10 s = (let s' = flps_narrow_10_set s in flps_output_parameters (max_m s') 10 s')"

definition flps_narrow_25_set :: "flps_globals \<Rightarrow> flps_globals" where
  "flps_narrow_25_set s =
     (let s0 = s\<lparr>not_valid := 0\<rparr>;
          s1 = s0\<lparr>big_m := double_to_int (c_round (Fin 3.394 * c_pow (real_of_int (target_length s0)) 0.672))\<rparr>;
          s2 = s1\<lparr>small_m := big_m s1\<rparr>;
          s3 = (if target_length s2 \<le> 90
                then s2\<lparr>threshold := - 4.0\<rparr>
                else s2\<lparr>threshold := - 0.028 * real_of_int (target_length s2) - 1.695\<rparr>)
      in s3\<lparr>max_m := 300\<rparr>)"

definition flps_narrow_25 :: "flps_globals \<Rightarrow> flps_globals" where
  "flps_narrow_25 s = (let s' = flps_narrow_25_set s in flps_output_parameters (max_m s') 25 s')"

definition flps_narrow_40_set :: "flps_globals \<Rightarrow> flps_globals" where
  "flps_narrow_40_set s =
     (let s0 = s\<lparr>not_valid := 0\<rparr>;
          s1 = s0\<lparr>big_m := double_to_int (c_round (Fin 0.889 * c_pow (real_of_int (target_length s0)) 0.977))\<rparr>;
          s2 = s1\<lparr>small_m := big_m s1\<rparr>;
          s3 = s2\<lparr>threshold := - 4.0\<rparr>
      in s3\<lparr>max_m := 300\<rparr>)"

definition flps_narrow_40 :: "flps_globals \<Rightarrow> flps_globals" where
  "flps_narrow_40 s = (let s' = flps_narrow_40_set s in flps_output_parameters (max_m s') 40 s')"

subsection \<open>\<^verbatim>\<open>main\<close>\<close>

text \<open>The part of \<^verbatim>\<open>main\<close> under the comment CALCULATE THE PARAMETERS.\<close>

definition flps_calculate :: "flps_globals \<Rightarrow> flps_globals" where
  "flps_calculate s =
     (if focus s = DIVERSE
      then flps_diverse_40 (flps_diverse_25 (flps_diverse_10 (flps_diverse_5 (flps_diverse_2 s))))
      else flps_narrow_40 (flps_narrow_25 (flps_narrow_10 (flps_narrow_5 (flps_narrow_2 s)))))"

text \<open>\<^verbatim>\<open>main\<close>: the exit status and the globals (with what was printed) at exit.\<close>

definition flps_main :: "getopt_result list \<Rightarrow> int \<times> flps_globals" where
  "flps_main args =
     (case getopt_loop args 0 flps_init of
        Inl r \<Rightarrow> r
      | Inr (errflg, s) \<Rightarrow>
          if errflg \<noteq> 0 then (1, print_help s)
          else (0, footer (flps_calculate (header s))))"


section \<open>SEGparameters.c\<close>

text \<open>
  \<open>seg_calls\<close> is the history of the calls of \<^verbatim>\<open>output_parameters\<close>, each with its
  two arguments and the globals \<^verbatim>\<open>L\<close>, \<^verbatim>\<open>K1\<close> and \<^verbatim>\<open>K2\<close> that the call reads.
\<close>

record seg_globals = globals +
  K1 :: double
  K2 :: double
  max_l :: double
  L :: int
  seg_calls :: "(int \<times> int \<times> int \<times> double \<times> double) list"

definition seg_init :: seg_globals where
  "seg_init = \<lparr>focus = DIVERSE, target_length = -1, not_valid = 0, stdout = [], stderr = [],
     K1 = Fin 0, K2 = Fin 0, max_l = Fin 0, L = 0, seg_calls = []\<rparr>"

text \<open>\<^verbatim>\<open>"\t~%d%%\t\t\tNA [ target length <5 OR >%d, OR K2>4.2]\n"\<close>\<close>

definition seg_na :: "int \<Rightarrow> int \<Rightarrow> string" where
  "seg_na coverage upper_bound =
     [tab] @ ''~'' @ fmt_d coverage @ ''%'' @ [tab, tab, tab] @
     ''NA [ target length <5 OR >'' @ fmt_d upper_bound @ '', OR K2>4.2]'' @ [nl]"

text \<open>\<^verbatim>\<open>"\t~%d%%\t\t\tNA [ target length <10 OR >%d, OR K2>4.2]\n"\<close>\<close>

definition seg_na_10 :: "int \<Rightarrow> int \<Rightarrow> string" where
  "seg_na_10 coverage upper_bound =
     [tab] @ ''~'' @ fmt_d coverage @ ''%'' @ [tab, tab, tab] @
     ''NA [ target length <10 OR >'' @ fmt_d upper_bound @ '', OR K2>4.2]'' @ [nl]"

text \<open>\<^verbatim>\<open>output_parameters\<close>; the local \<^verbatim>\<open>a\<close> is the first component of the pair.\<close>

definition seg_output_parameters :: "int \<Rightarrow> int \<Rightarrow> seg_globals \<Rightarrow> seg_globals" where
  "seg_output_parameters upper_bound coverage s =
     (let s0 = s\<lparr>seg_calls := seg_calls s @ [(upper_bound, coverage, L s, K1 s, K2 s)]\<rparr>;
          s1 = c_when (target_length s0 < 5 \<or> target_length s0 > upper_bound)
                 (\<lambda>s. s\<lparr>not_valid := 1\<rparr>) s0;
          s2 = c_when (K2 s1 > Fin 4.2) (\<lambda>s. s\<lparr>not_valid := 1\<rparr>) s1;
          (a, s3) =
            (if coverage = 40 \<and> focus s2 = DIVERSE \<and> target_length s2 < 10
             then (1 :: int, printf (Text (seg_na_10 coverage upper_bound)) (s2\<lparr>not_valid := 1\<rparr>))
             else (0, s2))
      in if not_valid s3 = 0
         then printf (Row_LK coverage (L s3) (K1 s3) (K2 s3)) s3
         else if a = 0 then printf (Text (seg_na coverage upper_bound)) s3
         else s3)"

subsection \<open>The rows of \<^verbatim>\<open>main\<close>, focus DIVERSE\<close>

text \<open>
  The call \<^verbatim>\<open>output_parameters(max_l, cov)\<close> converts the double \<^verbatim>\<open>max_l\<close> to the
  \<^verbatim>\<open>int\<close> parameter.
\<close>

definition seg_diverse_2_set :: "seg_globals \<Rightarrow> seg_globals" where
  "seg_diverse_2_set s0 =
     (let s2 = (if target_length s0 \<le> 35
                then s0\<lparr>L := double_to_int (c_round (Fin 1.274 * c_pow (real_of_int (target_length s0)) 0.823)),
                        K2 := Fin 0.701 * c_log (real_of_int (target_length s0)) + Fin 0.155\<rparr>
                else if target_length s0 > 45
                then s0\<lparr>L := double_to_int (c_round (Fin 1.004 * c_pow (real_of_int (target_length s0)) 0.891)),
                        K2 := Fin 0.447 * c_log (real_of_int (target_length s0)) + Fin 1.038\<rparr>
                else s0\<lparr>L := double_to_int (c_round (((Fin 1.274 * c_pow (real_of_int (target_length s0)) 0.823)
                                 + (Fin 1.004 * c_pow (real_of_int (target_length s0)) 0.891)) / Fin 2.0)),
                        K2 := ((Fin 0.701 * c_log (real_of_int (target_length s0)) + Fin 0.155)
                               + (Fin 0.447 * c_log (real_of_int (target_length s0)) + Fin 1.038)) / Fin 2.0\<rparr>);
          s3 = s2\<lparr>K1 := K2 s2 - Fin 0.3\<rparr>
      in s3\<lparr>max_l := Fin 200\<rparr>)"

definition seg_diverse_2 :: "seg_globals \<Rightarrow> seg_globals" where
  "seg_diverse_2 s =
     (let s' = seg_diverse_2_set s in seg_output_parameters (double_to_int (max_l s')) 2 s')"

definition seg_diverse_5_set :: "seg_globals \<Rightarrow> seg_globals" where
  "seg_diverse_5_set s =
     (let s0 = s\<lparr>not_valid := 0\<rparr>;
          s3 = (if target_length s0 \<le> 50
                then (let s1 = s0\<lparr>L := double_to_int (c_round (Fin 1.385 * c_pow (real_of_int (target_length s0)) 0.801))\<rparr>;
                          s2 = s1\<lparr>K2 := Fin 0.716 * c_log (real_of_int (target_length s1)) + Fin 0.381\<rparr>
                      in s2\<lparr>K1 := K2 s2 - Fin 0.3\<rparr>)
                else (let s1 = s0\<lparr>L := double_to_int (c_round (Fin 0.747 * c_pow (real_of_int (target_length s0)) 0.912))\<rparr>;
                          s2 = s1\<lparr>K2 := Fin 0.337 * c_log (real_of_int (target_length s1)) + Fin 1.883\<rparr>
                      in s2\<lparr>K1 := K2 s2 - Fin 0.4\<rparr>))
      in s3\<lparr>max_l := Fin 300\<rparr>)"

definition seg_diverse_5 :: "seg_globals \<Rightarrow> seg_globals" where
  "seg_diverse_5 s =
     (let s' = seg_diverse_5_set s in seg_output_parameters (double_to_int (max_l s')) 5 s')"

definition seg_diverse_10_set :: "seg_globals \<Rightarrow> seg_globals" where
  "seg_diverse_10_set s =
     (let s0 = s\<lparr>not_valid := 0\<rparr>;
          s2 = (if target_length s0 \<le> 45
                then s0\<lparr>L := double_to_int (c_round (Fin 1.376 * c_pow (real_of_int (target_length s0)) 0.799)),
                        K2 := Fin 0.69 * c_log (real_of_int (target_length s0)) + Fin 0.625\<rparr>
                else if target_length s0 > 55
                then s0\<lparr>L := double_to_int (c_round (Fin 1.298 * c_pow (real_of_int (target_length s0)) 0.809)),
                        K2 := Fin 0.347 * c_log (real_of_int (target_length s0)) + Fin 1.93\<rparr>
                else s0\<lparr>L := double_to_int (c_round (((Fin 1.376 * c_pow (real_of_int (target_length s0)) 0.799)
                                 + (Fin 1.298 * c_pow (real_of_int (target_length s0)) 0.809)) / Fin 2.0)),
                        K2 := ((Fin 0.69 * c_log (real_of_int (target_length s0)) + Fin 0.625)
                               + (Fin 0.347 * c_log (real_of_int (target_length s0)) + Fin 1.93)) / Fin 2.0\<rparr>);
          s3 = s2\<lparr>K1 := K2 s2 - Fin 0.3\<rparr>
      in s3\<lparr>max_l := Fin 300\<rparr>)"

definition seg_diverse_10 :: "seg_globals \<Rightarrow> seg_globals" where
  "seg_diverse_10 s =
     (let s' = seg_diverse_10_set s in seg_output_parameters (double_to_int (max_l s')) 10 s')"

definition seg_diverse_25_set :: "seg_globals \<Rightarrow> seg_globals" where
  "seg_diverse_25_set s =
     (let s0 = s\<lparr>not_valid := 0\<rparr>;
          s1 = s0\<lparr>L := double_to_int (c_round (Fin 1.507 * c_pow (real_of_int (target_length s0)) 0.762))\<rparr>;
          s2 = (if target_length s1 \<le> 45
                then s1\<lparr>K2 := Fin 0.476 * c_log (real_of_int (target_length s1)) + Fin 1.566\<rparr>
                else if target_length s1 > 55
                then s1\<lparr>K2 := Fin 0.314 * c_log (real_of_int (target_length s1)) + Fin 2.221\<rparr>
                else s1\<lparr>K2 := ((Fin 0.476 * c_log (real_of_int (target_length s1)) + Fin 1.566)
                             + (Fin 0.314 * c_log (real_of_int (target_length s1)) + Fin 2.221)) / Fin 2.0\<rparr>);
          s3 = s2\<lparr>K1 := K2 s2 - Fin 0.3\<rparr>
      in s3\<lparr>max_l := Fin 300\<rparr>)"

definition seg_diverse_25 :: "seg_globals \<Rightarrow> seg_globals" where
  "seg_diverse_25 s =
     (let s' = seg_diverse_25_set s in seg_output_parameters (double_to_int (max_l s')) 25 s')"

definition seg_diverse_40_set :: "seg_globals \<Rightarrow> seg_globals" where
  "seg_diverse_40_set s =
     (let s0 = s\<lparr>not_valid := 0\<rparr>;
          s2 = (if target_length s0 \<le> 55
                then s0\<lparr>L := double_to_int (c_round (Fin 1.491 * c_pow (real_of_int (target_length s0)) 0.793)),
                        K2 := Fin 0.581 * c_log (real_of_int (target_length s0)) + Fin 1.316\<rparr>
                else if target_length s0 > 65
                then s0\<lparr>L := double_to_int (c_round (Fin 1.138 * c_pow (real_of_int (target_length s0)) 0.86)),
                        K2 := Fin 0.28 * c_log (real_of_int (target_length s0)) + Fin 2.442\<rparr>
                else s0\<lparr>L := double_to_int (c_round (((Fin 1.491 * c_pow (real_of_int (target_length s0)) 0.793)
                                 + (Fin 1.138 * c_pow (real_of_int (target_length s0)) 0.86)) / Fin 2.0)),
                        K2 := ((Fin 0.581 * c_log (real_of_int (target_length s0)) + Fin 1.316)
                               + (Fin 0.28 * c_log (real_of_int (target_length s0)) + Fin 2.442)) / Fin 2.0\<rparr>);
          s3 = s2\<lparr>K1 := K2 s2 - Fin 0.2\<rparr>
      in s3\<lparr>max_l := Fin 300\<rparr>)"

definition seg_diverse_40 :: "seg_globals \<Rightarrow> seg_globals" where
  "seg_diverse_40 s =
     (let s' = seg_diverse_40_set s in seg_output_parameters (double_to_int (max_l s')) 40 s')"

subsection \<open>The rows of \<^verbatim>\<open>main\<close>, focus NARROW\<close>

text \<open>\<^verbatim>\<open>L\<close> is assigned once, in the first row, and read by all five.\<close>

definition seg_narrow_2_set :: "seg_globals \<Rightarrow> seg_globals" where
  "seg_narrow_2_set s0 =
     (let s1 = s0\<lparr>L := target_length s0\<rparr>;
          s2 = (if target_length s1 \<le> 45
                then s1\<lparr>K2 := Fin 0.818 * c_log (real_of_int (L s1)) - Fin 0.245\<rparr>
                else if target_length s1 > 55
                then s1\<lparr>K2 := Fin 0.418 * c_log (real_of_int (L s1)) + Fin 1.206\<rparr>
                else s1\<lparr>K2 := ((Fin 0.818 * c_log (real_of_int (L s1)) - Fin 0.245)
                             + (Fin 0.418 * c_log (real_of_int (L s1)) + Fin 1.206)) / Fin 2.0\<rparr>);
          s3 = s2\<lparr>K1 := K2 s2\<rparr>
      in s3\<lparr>max_l := Fin 250\<rparr>)"

definition seg_narrow_2 :: "seg_globals \<Rightarrow> seg_globals" where
  "seg_narrow_2 s =
     (let s' = seg_narrow_2_set s in seg_output_parameters (double_to_int (max_l s')) 2 s')"

definition seg_narrow_5_set :: "seg_globals \<Rightarrow> seg_globals" where
  "seg_narrow_5_set s =
     (let s0 = s\<lparr>not_valid := 0\<rparr>;
          s2 = (if target_length s0 \<le> 45
                then s0\<lparr>K2 := Fin 0.824 * c_log (real_of_int (L s0)) - Fin 0.003\<rparr>
                else if target_length s0 > 55
                then s0\<lparr>K2 := Fin 0.355 * c_log (real_of_int (L s0)) + Fin 1.731\<rparr>
                else s0\<lparr>K2 := ((Fin 0.824 * c_log (real_of_int (L s0)) - Fin 0.003)
                             + (Fin 0.355 * c_log (real_of_int (L s0)) + Fin 1.731)) / Fin 2.0\<rparr>);
          s3 = s2\<lparr>K1 := K2 s2\<rparr>
      in s3\<lparr>max_l := Fin 300\<rparr>)"

definition seg_narrow_5 :: "seg_globals \<Rightarrow> seg_globals" where
  "seg_narrow_5 s =
     (let s' = seg_narrow_5_set s in seg_output_parameters (double_to_int (max_l s')) 5 s')"

definition seg_narrow_10_set :: "seg_globals \<Rightarrow> seg_globals" where
  "seg_narrow_10_set s =
     (let s0 = s\<lparr>not_valid := 0\<rparr>;
          s2 = (if target_length s0 \<le> 45
                then s0\<lparr>K2 := Fin 0.803 * c_log (real_of_int (L s0)) + Fin 0.251\<rparr>
                else if target_length s0 > 55
                then s0\<lparr>K2 := Fin 0.3 * c_log (real_of_int (L s0)) + Fin 2.135\<rparr>
                else s0\<lparr>K2 := ((Fin 0.803 * c_log (real_of_int (L s0)) + Fin 0.251)
                             + (Fin 0.3 * c_log (real_of_int (L s0)) + Fin 2.135)) / Fin 2.0\<rparr>);
          s3 = s2\<lparr>K1 := K2 s2\<rparr>
      in s3\<lparr>max_l := Fin 300\<rparr>)"

definition seg_narrow_10 :: "seg_globals \<Rightarrow> seg_globals" where
  "seg_narrow_10 s =
     (let s' = seg_narrow_10_set s in seg_output_parameters (double_to_int (max_l s')) 10 s')"

definition seg_narrow_25_set :: "seg_globals \<Rightarrow> seg_globals" where
  "seg_narrow_25_set s =
     (let s0 = s\<lparr>not_valid := 0\<rparr>;
          s2 = (if target_length s0 \<le> 45
                then s0\<lparr>K2 := Fin 0.788 * c_log (real_of_int (L s0)) + Fin 0.499\<rparr>
                else if target_length s0 > 55
                then s0\<lparr>K2 := Fin 0.278 * c_log (real_of_int (L s0)) + Fin 2.405\<rparr>
                else s0\<lparr>K2 := ((Fin 0.788 * c_log (real_of_int (L s0)) + Fin 0.499)
                             + (Fin 0.278 * c_log (real_of_int (L s0)) + Fin 2.405)) / Fin 2.0\<rparr>);
          s3 = s2\<lparr>K1 := K2 s2\<rparr>
      in s3\<lparr>max_l := Fin 300\<rparr>)"

definition seg_narrow_25 :: "seg_globals \<Rightarrow> seg_globals" where
  "seg_narrow_25 s =
     (let s' = seg_narrow_25_set s in seg_output_parameters (double_to_int (max_l s')) 25 s')"

definition seg_narrow_40_set :: "seg_globals \<Rightarrow> seg_globals" where
  "seg_narrow_40_set s =
     (let s0 = s\<lparr>not_valid := 0\<rparr>;
          s2 = (if target_length s0 \<le> 45
                then s0\<lparr>K2 := Fin 0.705 * c_log (real_of_int (L s0)) + Fin 0.887\<rparr>
                else if target_length s0 > 55
                then s0\<lparr>K2 := Fin 0.257 * c_log (real_of_int (L s0)) + Fin 2.596\<rparr>
                else s0\<lparr>K2 := ((Fin 0.705 * c_log (real_of_int (L s0)) + Fin 0.887)
                             + (Fin 0.257 * c_log (real_of_int (L s0)) + Fin 2.596)) / Fin 2.0\<rparr>);
          s3 = s2\<lparr>K1 := K2 s2\<rparr>
      in s3\<lparr>max_l := Fin 250\<rparr>)"

definition seg_narrow_40 :: "seg_globals \<Rightarrow> seg_globals" where
  "seg_narrow_40 s =
     (let s' = seg_narrow_40_set s in seg_output_parameters (double_to_int (max_l s')) 40 s')"

subsection \<open>\<^verbatim>\<open>main\<close>\<close>

definition seg_calculate :: "seg_globals \<Rightarrow> seg_globals" where
  "seg_calculate s =
     (if focus s = DIVERSE
      then seg_diverse_40 (seg_diverse_25 (seg_diverse_10 (seg_diverse_5 (seg_diverse_2 s))))
      else seg_narrow_40 (seg_narrow_25 (seg_narrow_10 (seg_narrow_5 (seg_narrow_2 s)))))"

definition seg_main :: "getopt_result list \<Rightarrow> int \<times> seg_globals" where
  "seg_main args =
     (case getopt_loop args 0 seg_init of
        Inl r \<Rightarrow> r
      | Inr (errflg, s) \<Rightarrow>
          if errflg \<noteq> 0 then (1, print_help s)
          else (0, footer (seg_calculate (header s))))"

section \<open>The tables of the specification\<close>

text \<open>
  The definitions of this section follow the words of the specification, not the code:
  the tables of its Convention A (fLPS), with \<open>len\<close> the target length (the L of the
  tables), and its validity rules. The formulas are read over the real numbers, where a
  power of the target length is a number for a target length from 0 on; rounding to the
  nearest integer is \<open>round\<close>.
\<close>

definition spec_A_na_rule :: "calculation_type \<Rightarrow> int \<Rightarrow> int \<Rightarrow> int \<Rightarrow> real \<Rightarrow> int \<Rightarrow> bool" where
  "spec_A_na_rule f cov T ub thr sm =
     (T < 5 \<or> T > ub \<or> thr > - 3 \<or> sm < 5
      \<or> (f = NARROW \<and> cov = 25 \<and> T < 50)
      \<or> (f = NARROW \<and> cov = 40 \<and> T < 100)
      \<or> (f = DIVERSE \<and> cov = 40 \<and> T \<le> 15)
      \<or> (f = NARROW \<and> T \<le> 10))"

definition spec_A_big_m :: "calculation_type \<Rightarrow> int \<Rightarrow> int \<Rightarrow> int" where
  "spec_A_big_m f cov len =
     (case f of
        DIVERSE \<Rightarrow>
          (if cov = 2 then round (2.534 * real_of_int len powr 0.506)
           else if cov = 5 then round (3.46 * real_of_int len powr 0.508)
           else if cov = 10 then round (3.912 * real_of_int len powr 0.543)
           else if cov = 25 then
             (if len \<le> 105 then round (5.647 * real_of_int len powr 0.56)
              else round (6.096 * real_of_int len powr 0.552))
           else
             (if len \<le> 105 then round (9.82 * real_of_int len powr 0.522)
              else round (11.126 * real_of_int len powr 0.484)))
      | NARROW \<Rightarrow>
          (if cov = 2 then round (2.324 * real_of_int len powr 0.539)
           else if cov = 5 then round (2.976 * real_of_int len powr 0.556)
           else if cov = 10 then round (3.493 * real_of_int len powr 0.572)
           else if cov = 25 then round (3.394 * real_of_int len powr 0.672)
           else round (0.889 * real_of_int len powr 0.977)))"

definition spec_A_small_m :: "calculation_type \<Rightarrow> int \<Rightarrow> int \<Rightarrow> int" where
  "spec_A_small_m f cov len =
     (case f of
        DIVERSE \<Rightarrow>
          (if cov = 2 then spec_A_big_m DIVERSE 2 len - 2
           else if cov = 5 then spec_A_big_m DIVERSE 5 len - 4
           else if cov = 10 then spec_A_big_m DIVERSE 10 len - 10
           else if cov = 25 then
             (if len \<le> 105 then round (0.872 * real_of_int len powr 0.797)
              else spec_A_big_m DIVERSE 25 len - 50)
           else
             (if len \<le> 105 then round (0.481 * real_of_int len powr 0.876)
              else spec_A_big_m DIVERSE 40 len - 80))
      | NARROW \<Rightarrow> spec_A_big_m NARROW cov len)"

definition spec_A_threshold_exponent :: "calculation_type \<Rightarrow> int \<Rightarrow> int \<Rightarrow> real" where
  "spec_A_threshold_exponent f cov len =
     (case f of
        DIVERSE \<Rightarrow>
          (if cov = 2 then - 0.153 * real_of_int len - 3.994
           else if cov = 5 then - 0.098 * real_of_int len - 3.305
           else if cov = 10 then - 0.055 * real_of_int len - 3.635
           else if cov = 25 then
             (if len \<le> 105 then - 0.039 * real_of_int len - 2.381
              else - 0.031 * real_of_int len - 2.93)
           else
             (if len \<le> 105 then - 0.022 * real_of_int len - 2.709
              else - 0.025 * real_of_int len - 2.762))
      | NARROW \<Rightarrow>
          (if cov = 2 then - 0.149 * real_of_int len - 3.883
           else if cov = 5 then
             (if len \<le> 28 then - 0.127 * real_of_int len - 2.183
              else if len \<ge> 33 then - 0.09 * real_of_int len - 3.173
              else ((- 0.127 * real_of_int len - 2.183) + (- 0.09 * real_of_int len - 3.173)) / 2)
           else if cov = 10 then - 0.058 * real_of_int len - 2.731
           else if cov = 25 then (if len \<le> 90 then - 4.0 else - 0.028 * real_of_int len - 1.695)
           else - 4.0))"

definition spec_A_max_target_length :: "calculation_type \<Rightarrow> int \<Rightarrow> int" where
  "spec_A_max_target_length f cov =
     (case f of
        DIVERSE \<Rightarrow>
          (if cov = 2 then 100 else if cov = 5 then 200 else if cov = 10 then 250 else 300)
      | NARROW \<Rightarrow>
          (if cov = 2 then 100 else if cov = 5 then 200 else if cov = 10 then 200 else 300))"

definition row_params :: "flps_globals \<Rightarrow> int \<times> int \<times> real \<times> int" where
  "row_params s = (big_m s, small_m s, threshold s, max_m s)"

definition spec_A_row :: "calculation_type \<Rightarrow> int \<Rightarrow> int \<Rightarrow> int \<times> int \<times> real \<times> int" where
  "spec_A_row f cov len =
     (spec_A_big_m f cov len, spec_A_small_m f cov len, spec_A_threshold_exponent f cov len,
      spec_A_max_target_length f cov)"

definition spec_A_invalid :: "calculation_type \<Rightarrow> int \<Rightarrow> int \<Rightarrow> bool" where
  "spec_A_invalid f len cov =
     spec_A_na_rule f cov len (spec_A_max_target_length f cov)
       (spec_A_threshold_exponent f cov len) (spec_A_small_m f cov len)"

definition spec_A_line :: "calculation_type \<Rightarrow> int \<Rightarrow> int \<Rightarrow> line" where
  "spec_A_line f len cov =
     (if spec_A_invalid f len cov then Text (flps_na cov (spec_A_max_target_length f cov))
      else Row_mMt cov (spec_A_small_m f cov len) (spec_A_big_m f cov len)
             (Fin (10 powr spec_A_threshold_exponent f cov len)))"

text \<open>
  The tables of Convention B (SEG), with \<open>T\<close> the target length. In an "else average"
  entry the outputs of the two formulas are averaged, and the window length is rounded
  after the averaging.
\<close>

definition spec_B_L :: "calculation_type \<Rightarrow> int \<Rightarrow> int \<Rightarrow> int" where
  "spec_B_L f cov T =
     (case f of
        DIVERSE \<Rightarrow>
          (if cov = 2 then
             (if T \<le> 35 then round (1.274 * real_of_int T powr 0.823)
              else if T > 45 then round (1.004 * real_of_int T powr 0.891)
              else round ((1.274 * real_of_int T powr 0.823 + 1.004 * real_of_int T powr 0.891) / 2))
           else if cov = 5 then
             (if T \<le> 50 then round (1.385 * real_of_int T powr 0.801)
              else round (0.747 * real_of_int T powr 0.912))
           else if cov = 10 then
             (if T \<le> 45 then round (1.376 * real_of_int T powr 0.799)
              else if T > 55 then round (1.298 * real_of_int T powr 0.809)
              else round ((1.376 * real_of_int T powr 0.799 + 1.298 * real_of_int T powr 0.809) / 2))
           else if cov = 25 then round (1.507 * real_of_int T powr 0.762)
           else
             (if T \<le> 55 then round (1.491 * real_of_int T powr 0.793)
              else if T > 65 then round (1.138 * real_of_int T powr 0.86)
              else round ((1.491 * real_of_int T powr 0.793 + 1.138 * real_of_int T powr 0.86) / 2)))
      | NARROW \<Rightarrow> T)"

definition spec_B_K2 :: "calculation_type \<Rightarrow> int \<Rightarrow> int \<Rightarrow> real" where
  "spec_B_K2 f cov T =
     (case f of
        DIVERSE \<Rightarrow>
          (if cov = 2 then
             (if T \<le> 35 then 0.701 * ln (real_of_int T) + 0.155
              else if T > 45 then 0.447 * ln (real_of_int T) + 1.038
              else ((0.701 * ln (real_of_int T) + 0.155) + (0.447 * ln (real_of_int T) + 1.038)) / 2)
           else if cov = 5 then
             (if T \<le> 50 then 0.716 * ln (real_of_int T) + 0.381
              else 0.337 * ln (real_of_int T) + 1.883)
           else if cov = 10 then
             (if T \<le> 45 then 0.69 * ln (real_of_int T) + 0.625
              else if T > 55 then 0.347 * ln (real_of_int T) + 1.93
              else ((0.69 * ln (real_of_int T) + 0.625) + (0.347 * ln (real_of_int T) + 1.93)) / 2)
           else if cov = 25 then
             (if T \<le> 45 then 0.476 * ln (real_of_int T) + 1.566
              else if T > 55 then 0.314 * ln (real_of_int T) + 2.221
              else ((0.476 * ln (real_of_int T) + 1.566) + (0.314 * ln (real_of_int T) + 2.221)) / 2)
           else
             (if T \<le> 55 then 0.581 * ln (real_of_int T) + 1.316
              else if T > 65 then 0.28 * ln (real_of_int T) + 2.442
              else ((0.581 * ln (real_of_int T) + 1.316) + (0.28 * ln (real_of_int T) + 2.442)) / 2))
      | NARROW \<Rightarrow>
          (if cov = 2 then
             (if T \<le> 45 then 0.818 * ln (real_of_int T) - 0.245
              else if T > 55 then 0.418 * ln (real_of_int T) + 1.206
              else ((0.818 * ln (real_of_int T) - 0.245) + (0.418 * ln (real_of_int T) + 1.206)) / 2)
           else if cov = 5 then
             (if T \<le> 45 then 0.824 * ln (real_of_int T) - 0.003
              else if T > 55 then 0.355 * ln (real_of_int T) + 1.731
              else ((0.824 * ln (real_of_int T) - 0.003) + (0.355 * ln (real_of_int T) + 1.731)) / 2)
           else if cov = 10 then
             (if T \<le> 45 then 0.803 * ln (real_of_int T) + 0.251
              else if T > 55 then 0.3 * ln (real_of_int T) + 2.135
              else ((0.803 * ln (real_of_int T) + 0.251) + (0.3 * ln (real_of_int T) + 2.135)) / 2)
           else if cov = 25 then
             (if T \<le> 45 then 0.788 * ln (real_of_int T) + 0.499
              else if T > 55 then 0.278 * ln (real_of_int T) + 2.405
              else ((0.788 * ln (real_of_int T) + 0.499) + (0.278 * ln (real_of_int T) + 2.405)) / 2)
           else
             (if T \<le> 45 then 0.705 * ln (real_of_int T) + 0.887
              else if T > 55 then 0.257 * ln (real_of_int T) + 2.596
              else ((0.705 * ln (real_of_int T) + 0.887) + (0.257 * ln (real_of_int T) + 2.596)) / 2)))"

definition spec_B_K1 :: "calculation_type \<Rightarrow> int \<Rightarrow> int \<Rightarrow> real" where
  "spec_B_K1 f cov T =
     (case f of
        DIVERSE \<Rightarrow>
          (if cov = 5 then (if T \<le> 50 then spec_B_K2 DIVERSE 5 T - 0.3 else spec_B_K2 DIVERSE 5 T - 0.4)
           else if cov = 40 then spec_B_K2 DIVERSE 40 T - 0.2
           else spec_B_K2 DIVERSE cov T - 0.3)
      | NARROW \<Rightarrow> spec_B_K2 NARROW cov T)"

definition spec_B_max :: "calculation_type \<Rightarrow> int \<Rightarrow> int" where
  "spec_B_max f cov =
     (case f of
        DIVERSE \<Rightarrow> (if cov = 2 then 200 else 300)
      | NARROW \<Rightarrow> (if cov = 2 \<or> cov = 40 then 250 else 300))"

definition seg_row_params :: "seg_globals \<Rightarrow> int \<times> double \<times> double \<times> int" where
  "seg_row_params s = (L s, K1 s, K2 s, double_to_int (max_l s))"

definition spec_B_row :: "calculation_type \<Rightarrow> int \<Rightarrow> int \<Rightarrow> int \<times> double \<times> double \<times> int" where
  "spec_B_row f cov T =
     (spec_B_L f cov T, Fin (spec_B_K1 f cov T), Fin (spec_B_K2 f cov T), spec_B_max f cov)"

text \<open>The line of a row by the validity rules of Convention B.\<close>

definition spec_B_line :: "calculation_type \<Rightarrow> int \<Rightarrow> int \<Rightarrow> line" where
  "spec_B_line f T cov =
     (if f = DIVERSE \<and> cov = 40 \<and> T < 10 then Text (seg_na_10 cov (spec_B_max f cov))
      else if T < 5 \<or> T > spec_B_max f cov \<or> spec_B_K2 f cov T > 4.2
      then Text (seg_na cov (spec_B_max f cov))
      else Row_LK cov (spec_B_L f cov T) (Fin (spec_B_K1 f cov T)) (Fin (spec_B_K2 f cov T)))"



definition spec_B_fp_K2 :: "int \<Rightarrow> int \<Rightarrow> double" where
  "spec_B_fp_K2 cov T =
     (if cov = 2 then
        (if T \<le> 45 then Fin 0.818 * c_log (real_of_int T) - Fin 0.245
         else if T > 55 then Fin 0.418 * c_log (real_of_int T) + Fin 1.206
         else ((Fin 0.818 * c_log (real_of_int T) - Fin 0.245)
               + (Fin 0.418 * c_log (real_of_int T) + Fin 1.206)) / Fin 2)
      else if cov = 5 then
        (if T \<le> 45 then Fin 0.824 * c_log (real_of_int T) - Fin 0.003
         else if T > 55 then Fin 0.355 * c_log (real_of_int T) + Fin 1.731
         else ((Fin 0.824 * c_log (real_of_int T) - Fin 0.003)
               + (Fin 0.355 * c_log (real_of_int T) + Fin 1.731)) / Fin 2)
      else if cov = 10 then
        (if T \<le> 45 then Fin 0.803 * c_log (real_of_int T) + Fin 0.251
         else if T > 55 then Fin 0.3 * c_log (real_of_int T) + Fin 2.135
         else ((Fin 0.803 * c_log (real_of_int T) + Fin 0.251)
               + (Fin 0.3 * c_log (real_of_int T) + Fin 2.135)) / Fin 2)
      else if cov = 25 then
        (if T \<le> 45 then Fin 0.788 * c_log (real_of_int T) + Fin 0.499
         else if T > 55 then Fin 0.278 * c_log (real_of_int T) + Fin 2.405
         else ((Fin 0.788 * c_log (real_of_int T) + Fin 0.499)
               + (Fin 0.278 * c_log (real_of_int T) + Fin 2.405)) / Fin 2)
      else
        (if T \<le> 45 then Fin 0.705 * c_log (real_of_int T) + Fin 0.887
         else if T > 55 then Fin 0.257 * c_log (real_of_int T) + Fin 2.596
         else ((Fin 0.705 * c_log (real_of_int T) + Fin 0.887)
               + (Fin 0.257 * c_log (real_of_int T) + Fin 2.596)) / Fin 2))"

section \<open>What a run shows\<close>

text \<open>The globals at the five calls of \<^verbatim>\<open>output_parameters\<close>, in the order of the calls.\<close>

definition seg_snapshots :: "seg_globals \<Rightarrow> seg_globals list" where
  "seg_snapshots s =
     (if focus s = DIVERSE
      then [seg_diverse_2_set s,
            seg_diverse_5_set (seg_diverse_2 s),
            seg_diverse_10_set (seg_diverse_5 (seg_diverse_2 s)),
            seg_diverse_25_set (seg_diverse_10 (seg_diverse_5 (seg_diverse_2 s))),
            seg_diverse_40_set (seg_diverse_25 (seg_diverse_10 (seg_diverse_5 (seg_diverse_2 s))))]
      else [seg_narrow_2_set s,
            seg_narrow_5_set (seg_narrow_2 s),
            seg_narrow_10_set (seg_narrow_5 (seg_narrow_2 s)),
            seg_narrow_25_set (seg_narrow_10 (seg_narrow_5 (seg_narrow_2 s))),
            seg_narrow_40_set (seg_narrow_25 (seg_narrow_10 (seg_narrow_5 (seg_narrow_2 s))))])"

text \<open>
  The start of an NA line, \<^verbatim>\<open>"\t~%d%%\t\t\tNA ["\<close>, which the three NA formats share.
\<close>

definition na_prefix :: "int \<Rightarrow> string" where
  "na_prefix coverage = [tab] @ ''~'' @ fmt_d coverage @ ''%'' @ [tab, tab, tab] @ ''NA [''"

text \<open>A line is the row of a coverage level: its parameters, or an NA line for it.\<close>

definition is_row_for :: "int \<Rightarrow> line \<Rightarrow> bool" where
  "is_row_for coverage l =
     (case l of
        Row_mMt c m M t \<Rightarrow> c = coverage
      | Row_LK c l k1 k2 \<Rightarrow> c = coverage
      | Text t \<Rightarrow> prefix (na_prefix coverage) t
      | _ \<Rightarrow> False)"

text \<open>
  What an NA marker says of a row: the bounds it names, on the target length, the row's
  upper bound and the printed threshold \<open>t\<close> (fLPS) or \<open>K2\<close> (SEG).
\<close>

definition flps_marker_true :: "int \<Rightarrow> int \<Rightarrow> double \<Rightarrow> bool" where
  "flps_marker_true T upper_bound t = (T < 5 \<or> T > upper_bound \<or> t > Fin 0.001)"

definition seg_marker_true :: "int \<Rightarrow> int \<Rightarrow> double \<Rightarrow> bool" where
  "seg_marker_true T upper_bound k2 = (T < 5 \<or> T > upper_bound \<or> k2 > Fin 4.2)"

definition seg_marker_10_true :: "int \<Rightarrow> int \<Rightarrow> double \<Rightarrow> bool" where
  "seg_marker_10_true T upper_bound k2 = (T < 10 \<or> T > upper_bound \<or> k2 > Fin 4.2)"


section \<open>Doubles and conversions\<close>

lemma Fin_minus [simp]: "Fin a - Fin b = Fin (a - b)"
  by (simp add: minus_double_def)

lemma NaN_minus [simp]: "NaN - y = NaN"
  by (simp add: minus_double_def)

lemma c_pow_nonneg: "0 \<le> x \<Longrightarrow> 0 < y \<Longrightarrow> c_pow x y = Fin (x powr y)"
  by (simp add: c_pow_def)

lemma c_pow_pos: "0 < x \<Longrightarrow> c_pow x y = Fin (x powr y)"
  by (simp add: c_pow_def)

lemma c_log_pos: "0 < x \<Longrightarrow> c_log x = Fin (ln x)"
  by (simp add: c_log_def)

lemma int32_id: "- 2147483648 \<le> i \<Longrightarrow> i \<le> 2147483647 \<Longrightarrow> int32 i = i"
  by (simp add: int32_def)

lemma to_int_round:
  assumes "0 \<le> v" and "v \<le> 1000000"
  shows "double_to_int (c_round (Fin v)) = round v"
proof -
  have r: "0 \<le> round v" "round v \<le> 1000000"
    using assms by (simp_all add: round_def)
  have "c_round (Fin v) = Fin (real_of_int (round v))"
    using assms by (simp add: round_def)
  then show ?thesis
    using r by simp
qed

lemma powr_le_300:
  assumes "0 \<le> T" and "T \<le> 300" and "0 < e" and "e \<le> 1"
  shows "real_of_int T powr e \<le> 300"
proof (cases "T = 0")
  case True
  then show ?thesis by simp
next
  case False
  with assms have "1 \<le> real_of_int T" by simp
  then have "real_of_int T powr e \<le> real_of_int T powr 1"
    using assms by (intro powr_mono) simp_all
  also have "\<dots> \<le> 300" using assms \<open>1 \<le> real_of_int T\<close> by simp
  finally show ?thesis .
qed

lemma pow_term_bounds:
  assumes "0 \<le> T" and "T \<le> 300" and "0 \<le> a" and "a \<le> 1000" and "0 < e" and "e \<le> 1"
  shows "0 \<le> a * real_of_int T powr e" and "a * real_of_int T powr e \<le> 300000"
proof -
  show "0 \<le> a * real_of_int T powr e" using assms by simp
  have "a * real_of_int T powr e \<le> 1000 * 300"
    using assms powr_le_300 [OF assms(1,2,5,6)] by (intro mult_mono) simp_all
  then show "a * real_of_int T powr e \<le> 300000" by simp
qed

lemma to_int_round_pow:
  assumes "0 \<le> T" and "T \<le> 300" and "0 \<le> a" and "a \<le> 1000" and "0 < e" and "e \<le> 1"
  shows "double_to_int (c_round (Fin a * c_pow (real_of_int T) e)) =
    round (a * real_of_int T powr e)"
proof -
  have "Fin a * c_pow (real_of_int T) e = Fin (a * real_of_int T powr e)"
    using assms by (simp add: c_pow_nonneg)
  then show ?thesis
    using pow_term_bounds [OF assms] by (simp only: to_int_round)
qed

lemma to_int_round_pow_avg:
  assumes "0 \<le> T" and "T \<le> 300" and "0 \<le> a" and "a \<le> 1000" and "0 < e" and "e \<le> 1"
    and "0 \<le> b" and "b \<le> 1000" and "0 < f" and "f \<le> 1"
  shows "double_to_int (c_round ((Fin a * c_pow (real_of_int T) e
             + Fin b * c_pow (real_of_int T) f) / Fin 2)) =
    round ((a * real_of_int T powr e + b * real_of_int T powr f) / 2)"
proof -
  have "(Fin a * c_pow (real_of_int T) e + Fin b * c_pow (real_of_int T) f) / Fin 2
      = Fin ((a * real_of_int T powr e + b * real_of_int T powr f) / 2)"
    using assms by (simp add: c_pow_nonneg)
  moreover have "0 \<le> (a * real_of_int T powr e + b * real_of_int T powr f) / 2"
    "(a * real_of_int T powr e + b * real_of_int T powr f) / 2 \<le> 1000000"
    using pow_term_bounds [OF assms(1-6)] pow_term_bounds [OF assms(1,2,7-10)] by simp_all
  ultimately show ?thesis
    by (simp only: to_int_round)
qed

lemma round_pow_bounds:
  assumes "0 \<le> T" and "T \<le> 300" and "0 \<le> a" and "a \<le> 1000" and "0 < e" and "e \<le> 1"
  shows "0 \<le> round (a * real_of_int T powr e) \<and> round (a * real_of_int T powr e) \<le> 300001"
  using pow_term_bounds [OF assms] by (simp add: round_def)

section \<open>The rows of fLPSparameters.c\<close>

lemma c_when_not_valid:
  "not_valid (c_when c (\<lambda>s. s\<lparr>not_valid := 1\<rparr>) s) = 0 \<longleftrightarrow> \<not> c \<and> not_valid s = 0"
  by (simp add: c_when_def)

lemma c_when_globals:
  "focus (c_when c (\<lambda>s. s\<lparr>not_valid := 1\<rparr>) s) = focus s"
  "target_length (c_when c (\<lambda>s. s\<lparr>not_valid := 1\<rparr>) s) = target_length s"
  "stdout (c_when c (\<lambda>s. s\<lparr>not_valid := 1\<rparr>) s) = stdout s"
  "stderr (c_when c (\<lambda>s. s\<lparr>not_valid := 1\<rparr>) s) = stderr s"
  by (simp_all add: c_when_def)

lemma c_when_flps:
  "small_m (c_when c (\<lambda>s. s\<lparr>not_valid := 1\<rparr>) s) = small_m s"
  "big_m (c_when c (\<lambda>s. s\<lparr>not_valid := 1\<rparr>) s) = big_m s"
  "max_m (c_when c (\<lambda>s. s\<lparr>not_valid := 1\<rparr>) s) = max_m s"
  "threshold (c_when c (\<lambda>s. s\<lparr>not_valid := 1\<rparr>) s) = threshold s"
  "flps_calls (c_when c (\<lambda>s. s\<lparr>not_valid := 1\<rparr>) s) = flps_calls s"
  by (simp_all add: c_when_def)

lemma printf_fields:
  "stdout (printf l s) = stdout s @ [l]"
  "focus (printf l s) = focus s"
  "target_length (printf l s) = target_length s"
  "stderr (printf l s) = stderr s"
  "not_valid (printf l s) = not_valid s"
  by (simp_all add: printf_def)

lemma printf_flps_calls: "flps_calls (printf l s) = flps_calls s"
  by (simp add: printf_def)

lemma flps_output_parameters_fields:
  "focus (flps_output_parameters ub cov s) = focus s"
  "target_length (flps_output_parameters ub cov s) = target_length s"
  "stderr (flps_output_parameters ub cov s) = stderr s"
  by (simp_all add: flps_output_parameters_def Let_def c_when_globals printf_fields)

lemma flps_output_parameters_calls:
  "flps_calls (flps_output_parameters ub cov s) =
     flps_calls s @ [(ub, cov, small_m s, big_m s, threshold s)]"
  by (simp add: flps_output_parameters_def Let_def c_when_flps printf_flps_calls)

lemma flps_output_parameters_stdout:
  "stdout (flps_output_parameters ub cov s) = stdout s @
     [if not_valid s = 0 \<and> \<not> spec_A_na_rule (focus s) cov (target_length s) ub (threshold s) (small_m s)
      then Row_mMt cov (small_m s) (big_m s) (c_pow 10 (threshold s))
      else Text (flps_na cov ub)]"
  unfolding flps_output_parameters_def Let_def spec_A_na_rule_def
  by (simp add: c_when_not_valid c_when_globals c_when_flps printf_fields)

lemmas spec_A_defs = spec_A_row_def spec_A_big_m_def spec_A_small_m_def
  spec_A_threshold_exponent_def spec_A_max_target_length_def

lemmas flps_set_defs =
  flps_diverse_2_set_def flps_diverse_5_set_def flps_diverse_10_set_def
  flps_diverse_25_set_def flps_diverse_40_set_def
  flps_narrow_2_set_def flps_narrow_5_set_def flps_narrow_10_set_def
  flps_narrow_25_set_def flps_narrow_40_set_def

lemmas flps_row_defs =
  flps_diverse_2_def flps_diverse_5_def flps_diverse_10_def flps_diverse_25_def
  flps_diverse_40_def flps_narrow_2_def flps_narrow_5_def flps_narrow_10_def
  flps_narrow_25_def flps_narrow_40_def

lemma spec_A_max_le_300: "spec_A_max_target_length f cov \<le> 300"
  by (cases f) (simp_all add: spec_A_max_target_length_def)

lemma flps_diverse_2_set_bounds:
  "threshold (flps_diverse_2_set s) = spec_A_threshold_exponent DIVERSE 2 (target_length s)"
  "max_m (flps_diverse_2_set s) = spec_A_max_target_length DIVERSE 2"
  by (simp_all add: flps_diverse_2_set_def spec_A_defs Let_def)


lemma flps_diverse_2_set_params:
  assumes "0 \<le> target_length s" and "target_length s \<le> 300"
  shows "row_params (flps_diverse_2_set s) = spec_A_row DIVERSE 2 (target_length s)"
  using round_pow_bounds [OF assms, of "2.534" "0.506"]
  by (simp add: flps_diverse_2_set_def row_params_def spec_A_defs Let_def to_int_round_pow assms int32_id)

lemma flps_diverse_5_set_bounds:
  "threshold (flps_diverse_5_set s) = spec_A_threshold_exponent DIVERSE 5 (target_length s)"
  "max_m (flps_diverse_5_set s) = spec_A_max_target_length DIVERSE 5"
  by (simp_all add: flps_diverse_5_set_def spec_A_defs Let_def)


lemma flps_diverse_5_set_params:
  assumes "0 \<le> target_length s" and "target_length s \<le> 300"
  shows "row_params (flps_diverse_5_set s) = spec_A_row DIVERSE 5 (target_length s)"
  using round_pow_bounds [OF assms, of "3.46" "0.508"]
  by (simp add: flps_diverse_5_set_def row_params_def spec_A_defs Let_def to_int_round_pow assms int32_id)

lemma flps_diverse_10_set_bounds:
  "threshold (flps_diverse_10_set s) = spec_A_threshold_exponent DIVERSE 10 (target_length s)"
  "max_m (flps_diverse_10_set s) = spec_A_max_target_length DIVERSE 10"
  by (simp_all add: flps_diverse_10_set_def spec_A_defs Let_def)


lemma flps_diverse_10_set_params:
  assumes "0 \<le> target_length s" and "target_length s \<le> 300"
  shows "row_params (flps_diverse_10_set s) = spec_A_row DIVERSE 10 (target_length s)"
  using round_pow_bounds [OF assms, of "3.912" "0.543"]
  by (simp add: flps_diverse_10_set_def row_params_def spec_A_defs Let_def to_int_round_pow assms int32_id)

lemma flps_diverse_25_set_bounds:
  "threshold (flps_diverse_25_set s) = spec_A_threshold_exponent DIVERSE 25 (target_length s)"
  "max_m (flps_diverse_25_set s) = spec_A_max_target_length DIVERSE 25"
  by (simp_all add: flps_diverse_25_set_def spec_A_defs Let_def)


lemma flps_diverse_25_set_params:
  assumes "0 \<le> target_length s" and "target_length s \<le> 300"
  shows "row_params (flps_diverse_25_set s) = spec_A_row DIVERSE 25 (target_length s)"
  using round_pow_bounds [OF assms, of "6.096" "0.552"]
  by (simp add: flps_diverse_25_set_def row_params_def spec_A_defs Let_def to_int_round_pow assms int32_id)

lemma flps_diverse_40_set_bounds:
  "threshold (flps_diverse_40_set s) = spec_A_threshold_exponent DIVERSE 40 (target_length s)"
  "max_m (flps_diverse_40_set s) = spec_A_max_target_length DIVERSE 40"
  by (simp_all add: flps_diverse_40_set_def spec_A_defs Let_def)


lemma flps_diverse_40_set_params:
  assumes "0 \<le> target_length s" and "target_length s \<le> 300"
  shows "row_params (flps_diverse_40_set s) = spec_A_row DIVERSE 40 (target_length s)"
  using round_pow_bounds [OF assms, of "11.126" "0.484"]
  by (simp add: flps_diverse_40_set_def row_params_def spec_A_defs Let_def to_int_round_pow assms int32_id)

lemma flps_narrow_2_set_bounds:
  "threshold (flps_narrow_2_set s) = spec_A_threshold_exponent NARROW 2 (target_length s)"
  "max_m (flps_narrow_2_set s) = spec_A_max_target_length NARROW 2"
  by (simp_all add: flps_narrow_2_set_def spec_A_defs Let_def)

lemma flps_narrow_2_set_params:
  assumes "0 \<le> target_length s" and "target_length s \<le> 300"
  shows "row_params (flps_narrow_2_set s) = spec_A_row NARROW 2 (target_length s)"
  by (simp add: flps_narrow_2_set_def row_params_def spec_A_defs Let_def to_int_round_pow assms int32_id)

lemma flps_narrow_5_set_bounds:
  "threshold (flps_narrow_5_set s) = spec_A_threshold_exponent NARROW 5 (target_length s)"
  "max_m (flps_narrow_5_set s) = spec_A_max_target_length NARROW 5"
  by (simp_all add: flps_narrow_5_set_def spec_A_defs Let_def)

lemma flps_narrow_5_set_params:
  assumes "0 \<le> target_length s" and "target_length s \<le> 300"
  shows "row_params (flps_narrow_5_set s) = spec_A_row NARROW 5 (target_length s)"
  by (simp add: flps_narrow_5_set_def row_params_def spec_A_defs Let_def to_int_round_pow assms int32_id)

lemma flps_narrow_10_set_bounds:
  "threshold (flps_narrow_10_set s) = spec_A_threshold_exponent NARROW 10 (target_length s)"
  "max_m (flps_narrow_10_set s) = spec_A_max_target_length NARROW 10"
  by (simp_all add: flps_narrow_10_set_def spec_A_defs Let_def)

lemma flps_narrow_10_set_params:
  assumes "0 \<le> target_length s" and "target_length s \<le> 300"
  shows "row_params (flps_narrow_10_set s) = spec_A_row NARROW 10 (target_length s)"
  by (simp add: flps_narrow_10_set_def row_params_def spec_A_defs Let_def to_int_round_pow assms int32_id)

lemma flps_narrow_25_set_bounds:
  "threshold (flps_narrow_25_set s) = spec_A_threshold_exponent NARROW 25 (target_length s)"
  "max_m (flps_narrow_25_set s) = spec_A_max_target_length NARROW 25"
  by (simp_all add: flps_narrow_25_set_def spec_A_defs Let_def)

lemma flps_narrow_25_set_params:
  assumes "0 \<le> target_length s" and "target_length s \<le> 300"
  shows "row_params (flps_narrow_25_set s) = spec_A_row NARROW 25 (target_length s)"
  by (simp add: flps_narrow_25_set_def row_params_def spec_A_defs Let_def to_int_round_pow assms int32_id)

lemma flps_narrow_40_set_bounds:
  "threshold (flps_narrow_40_set s) = spec_A_threshold_exponent NARROW 40 (target_length s)"
  "max_m (flps_narrow_40_set s) = spec_A_max_target_length NARROW 40"
  by (simp_all add: flps_narrow_40_set_def spec_A_defs Let_def)

lemma flps_narrow_40_set_params:
  assumes "0 \<le> target_length s" and "target_length s \<le> 300"
  shows "row_params (flps_narrow_40_set s) = spec_A_row NARROW 40 (target_length s)"
  by (simp add: flps_narrow_40_set_def row_params_def spec_A_defs Let_def to_int_round_pow assms int32_id)

lemma flps_set_globals:
  "focus (flps_diverse_2_set s) = focus s \<and> target_length (flps_diverse_2_set s) = target_length s
   \<and> stdout (flps_diverse_2_set s) = stdout s \<and> stderr (flps_diverse_2_set s) = stderr s
   \<and> not_valid (flps_diverse_2_set s) = not_valid s \<and> flps_calls (flps_diverse_2_set s) = flps_calls s"
  "focus (flps_diverse_5_set s) = focus s \<and> target_length (flps_diverse_5_set s) = target_length s
   \<and> stdout (flps_diverse_5_set s) = stdout s \<and> stderr (flps_diverse_5_set s) = stderr s
   \<and> not_valid (flps_diverse_5_set s) = 0 \<and> flps_calls (flps_diverse_5_set s) = flps_calls s"
  "focus (flps_diverse_10_set s) = focus s \<and> target_length (flps_diverse_10_set s) = target_length s
   \<and> stdout (flps_diverse_10_set s) = stdout s \<and> stderr (flps_diverse_10_set s) = stderr s
   \<and> not_valid (flps_diverse_10_set s) = 0 \<and> flps_calls (flps_diverse_10_set s) = flps_calls s"
  "focus (flps_diverse_25_set s) = focus s \<and> target_length (flps_diverse_25_set s) = target_length s
   \<and> stdout (flps_diverse_25_set s) = stdout s \<and> stderr (flps_diverse_25_set s) = stderr s
   \<and> not_valid (flps_diverse_25_set s) = 0 \<and> flps_calls (flps_diverse_25_set s) = flps_calls s"
  "focus (flps_diverse_40_set s) = focus s \<and> target_length (flps_diverse_40_set s) = target_length s
   \<and> stdout (flps_diverse_40_set s) = stdout s \<and> stderr (flps_diverse_40_set s) = stderr s
   \<and> not_valid (flps_diverse_40_set s) = 0 \<and> flps_calls (flps_diverse_40_set s) = flps_calls s"
  "focus (flps_narrow_2_set s) = focus s \<and> target_length (flps_narrow_2_set s) = target_length s
   \<and> stdout (flps_narrow_2_set s) = stdout s \<and> stderr (flps_narrow_2_set s) = stderr s
   \<and> not_valid (flps_narrow_2_set s) = not_valid s \<and> flps_calls (flps_narrow_2_set s) = flps_calls s"
  "focus (flps_narrow_5_set s) = focus s \<and> target_length (flps_narrow_5_set s) = target_length s
   \<and> stdout (flps_narrow_5_set s) = stdout s \<and> stderr (flps_narrow_5_set s) = stderr s
   \<and> not_valid (flps_narrow_5_set s) = 0 \<and> flps_calls (flps_narrow_5_set s) = flps_calls s"
  "focus (flps_narrow_10_set s) = focus s \<and> target_length (flps_narrow_10_set s) = target_length s
   \<and> stdout (flps_narrow_10_set s) = stdout s \<and> stderr (flps_narrow_10_set s) = stderr s
   \<and> not_valid (flps_narrow_10_set s) = 0 \<and> flps_calls (flps_narrow_10_set s) = flps_calls s"
  "focus (flps_narrow_25_set s) = focus s \<and> target_length (flps_narrow_25_set s) = target_length s
   \<and> stdout (flps_narrow_25_set s) = stdout s \<and> stderr (flps_narrow_25_set s) = stderr s
   \<and> not_valid (flps_narrow_25_set s) = 0 \<and> flps_calls (flps_narrow_25_set s) = flps_calls s"
  "focus (flps_narrow_40_set s) = focus s \<and> target_length (flps_narrow_40_set s) = target_length s
   \<and> stdout (flps_narrow_40_set s) = stdout s \<and> stderr (flps_narrow_40_set s) = stderr s
   \<and> not_valid (flps_narrow_40_set s) = 0 \<and> flps_calls (flps_narrow_40_set s) = flps_calls s"
  by (simp_all add: flps_set_defs Let_def)

lemma flps_row_stdout:
  assumes "0 \<le> T \<Longrightarrow> T \<le> 300 \<Longrightarrow> row_params s' = spec_A_row f cov T"
    and "threshold s' = spec_A_threshold_exponent f cov T"
    and "max_m s' = spec_A_max_target_length f cov"
    and "focus s' = f" and "target_length s' = T" and "not_valid s' = 0"
  shows "stdout (flps_output_parameters (max_m s') cov s') = stdout s' @ [spec_A_line f T cov]"
proof (cases "5 \<le> T \<and> T \<le> 300")
  case True
  then have "row_params s' = spec_A_row f cov T"
    using assms(1) by simp
  then show ?thesis
    using assms(4-6)
    by (simp add: flps_output_parameters_stdout row_params_def spec_A_row_def spec_A_line_def
        spec_A_invalid_def c_pow_pos)
next
  case False
  then have "T < 5 \<or> spec_A_max_target_length f cov < T"
    using spec_A_max_le_300 [of f cov] by linarith
  then have "spec_A_na_rule f cov T (spec_A_max_target_length f cov) x y" for x y
    by (auto simp add: spec_A_na_rule_def)
  then show ?thesis
    using assms(3-6)
    by (simp add: flps_output_parameters_stdout spec_A_line_def spec_A_invalid_def)
qed

lemma flps_diverse_2_stdout:
  "focus s = DIVERSE \<Longrightarrow> not_valid s = 0 \<Longrightarrow> 
   stdout (flps_diverse_2 s) = stdout s @ [spec_A_line DIVERSE (target_length s) 2]"
  unfolding flps_diverse_2_def Let_def
  by (rule trans [OF flps_row_stdout [where f = DIVERSE and T = "target_length s"]])
     (simp_all add: flps_diverse_2_set_params flps_diverse_2_set_bounds flps_set_globals)

lemma flps_diverse_5_stdout:
  "focus s = DIVERSE \<Longrightarrow> 
   stdout (flps_diverse_5 s) = stdout s @ [spec_A_line DIVERSE (target_length s) 5]"
  unfolding flps_diverse_5_def Let_def
  by (rule trans [OF flps_row_stdout [where f = DIVERSE and T = "target_length s"]])
     (simp_all add: flps_diverse_5_set_params flps_diverse_5_set_bounds flps_set_globals)

lemma flps_diverse_10_stdout:
  "focus s = DIVERSE \<Longrightarrow> 
   stdout (flps_diverse_10 s) = stdout s @ [spec_A_line DIVERSE (target_length s) 10]"
  unfolding flps_diverse_10_def Let_def
  by (rule trans [OF flps_row_stdout [where f = DIVERSE and T = "target_length s"]])
     (simp_all add: flps_diverse_10_set_params flps_diverse_10_set_bounds flps_set_globals)

lemma flps_diverse_25_stdout:
  "focus s = DIVERSE \<Longrightarrow> 
   stdout (flps_diverse_25 s) = stdout s @ [spec_A_line DIVERSE (target_length s) 25]"
  unfolding flps_diverse_25_def Let_def
  by (rule trans [OF flps_row_stdout [where f = DIVERSE and T = "target_length s"]])
     (simp_all add: flps_diverse_25_set_params flps_diverse_25_set_bounds flps_set_globals)

lemma flps_diverse_40_stdout:
  "focus s = DIVERSE \<Longrightarrow> 
   stdout (flps_diverse_40 s) = stdout s @ [spec_A_line DIVERSE (target_length s) 40]"
  unfolding flps_diverse_40_def Let_def
  by (rule trans [OF flps_row_stdout [where f = DIVERSE and T = "target_length s"]])
     (simp_all add: flps_diverse_40_set_params flps_diverse_40_set_bounds flps_set_globals)

lemma flps_narrow_2_stdout:
  "focus s = NARROW \<Longrightarrow> not_valid s = 0 \<Longrightarrow> 
   stdout (flps_narrow_2 s) = stdout s @ [spec_A_line NARROW (target_length s) 2]"
  unfolding flps_narrow_2_def Let_def
  by (rule trans [OF flps_row_stdout [where f = NARROW and T = "target_length s"]])
     (simp_all add: flps_narrow_2_set_params flps_narrow_2_set_bounds flps_set_globals)

lemma flps_narrow_5_stdout:
  "focus s = NARROW \<Longrightarrow> 
   stdout (flps_narrow_5 s) = stdout s @ [spec_A_line NARROW (target_length s) 5]"
  unfolding flps_narrow_5_def Let_def
  by (rule trans [OF flps_row_stdout [where f = NARROW and T = "target_length s"]])
     (simp_all add: flps_narrow_5_set_params flps_narrow_5_set_bounds flps_set_globals)

lemma flps_narrow_10_stdout:
  "focus s = NARROW \<Longrightarrow> 
   stdout (flps_narrow_10 s) = stdout s @ [spec_A_line NARROW (target_length s) 10]"
  unfolding flps_narrow_10_def Let_def
  by (rule trans [OF flps_row_stdout [where f = NARROW and T = "target_length s"]])
     (simp_all add: flps_narrow_10_set_params flps_narrow_10_set_bounds flps_set_globals)

lemma flps_narrow_25_stdout:
  "focus s = NARROW \<Longrightarrow> 
   stdout (flps_narrow_25 s) = stdout s @ [spec_A_line NARROW (target_length s) 25]"
  unfolding flps_narrow_25_def Let_def
  by (rule trans [OF flps_row_stdout [where f = NARROW and T = "target_length s"]])
     (simp_all add: flps_narrow_25_set_params flps_narrow_25_set_bounds flps_set_globals)

lemma flps_narrow_40_stdout:
  "focus s = NARROW \<Longrightarrow> 
   stdout (flps_narrow_40 s) = stdout s @ [spec_A_line NARROW (target_length s) 40]"
  unfolding flps_narrow_40_def Let_def
  by (rule trans [OF flps_row_stdout [where f = NARROW and T = "target_length s"]])
     (simp_all add: flps_narrow_40_set_params flps_narrow_40_set_bounds flps_set_globals)

lemma flps_row_globals:
  "focus (flps_diverse_2 s) = focus s \<and> target_length (flps_diverse_2 s) = target_length s
   \<and> stderr (flps_diverse_2 s) = stderr s"
  "focus (flps_diverse_5 s) = focus s \<and> target_length (flps_diverse_5 s) = target_length s
   \<and> stderr (flps_diverse_5 s) = stderr s"
  "focus (flps_diverse_10 s) = focus s \<and> target_length (flps_diverse_10 s) = target_length s
   \<and> stderr (flps_diverse_10 s) = stderr s"
  "focus (flps_diverse_25 s) = focus s \<and> target_length (flps_diverse_25 s) = target_length s
   \<and> stderr (flps_diverse_25 s) = stderr s"
  "focus (flps_diverse_40 s) = focus s \<and> target_length (flps_diverse_40 s) = target_length s
   \<and> stderr (flps_diverse_40 s) = stderr s"
  "focus (flps_narrow_2 s) = focus s \<and> target_length (flps_narrow_2 s) = target_length s
   \<and> stderr (flps_narrow_2 s) = stderr s"
  "focus (flps_narrow_5 s) = focus s \<and> target_length (flps_narrow_5 s) = target_length s
   \<and> stderr (flps_narrow_5 s) = stderr s"
  "focus (flps_narrow_10 s) = focus s \<and> target_length (flps_narrow_10 s) = target_length s
   \<and> stderr (flps_narrow_10 s) = stderr s"
  "focus (flps_narrow_25 s) = focus s \<and> target_length (flps_narrow_25 s) = target_length s
   \<and> stderr (flps_narrow_25 s) = stderr s"
  "focus (flps_narrow_40 s) = focus s \<and> target_length (flps_narrow_40 s) = target_length s
   \<and> stderr (flps_narrow_40 s) = stderr s"
  unfolding flps_row_defs Let_def
  by (simp_all add: flps_output_parameters_fields flps_set_globals)






lemma flps_calculate_diverse:
  assumes "focus s = DIVERSE" and "not_valid s = 0"
  shows "stdout (flps_calculate s) =
    stdout s @ map (spec_A_line DIVERSE (target_length s)) [2, 5, 10, 25, 40]"
  using assms
  by (simp add: flps_calculate_def flps_diverse_2_stdout flps_diverse_5_stdout
      flps_diverse_10_stdout flps_diverse_25_stdout flps_diverse_40_stdout flps_row_globals)

lemma flps_calculate_narrow:
  assumes "focus s = NARROW" and "not_valid s = 0"
  shows "stdout (flps_calculate s) =
    stdout s @ map (spec_A_line NARROW (target_length s)) [2, 5, 10, 25, 40]"
  using assms
  by (simp add: flps_calculate_def flps_narrow_2_stdout flps_narrow_5_stdout
      flps_narrow_10_stdout flps_narrow_25_stdout flps_narrow_40_stdout flps_row_globals)

lemma flps_calculate_stdout:
  assumes "not_valid s = 0"
  shows "stdout (flps_calculate s) =
    stdout s @ map (spec_A_line (focus s) (target_length s)) [2, 5, 10, 25, 40]"
  using assms flps_calculate_diverse [of s] flps_calculate_narrow [of s]
  by (cases "focus s") simp_all


section \<open>The runs of fLPSparameters.c\<close>

lemma case_f_fields:
  "not_valid (case_f a s) = not_valid s" "stdout (case_f a s) = stdout s"
  "target_length (case_f a s) = target_length s" "stderr (case_f a s) = stderr s"
  by (simp_all add: case_f_def)

lemma case_l_fields:
  "not_valid (case_l v s) = not_valid s" "stdout (case_l v s) = stdout s"
  "focus (case_l v s) = focus s"
  by (simp_all add: case_l_def Let_def c_when_def fprintf_stderr_def split: option.splits)

lemma fprintf_stderr_fields:
  "not_valid (fprintf_stderr e s) = not_valid s" "stdout (fprintf_stderr e s) = stdout s"
  "target_length (fprintf_stderr e s) = target_length s"
  "stderr (fprintf_stderr e s) = stderr s @ [e]" "focus (fprintf_stderr e s) = focus s"
  by (simp_all add: fprintf_stderr_def)

lemma getopt_loop_quiet:
  "getopt_loop args e s = Inr (e', s') \<Longrightarrow> not_valid s' = not_valid s \<and> stdout s' = stdout s"
  by (induction args e s rule: getopt_loop.induct)
     (simp_all add: case_f_fields case_l_fields fprintf_stderr_fields)


lemma header_footer_fields:
  "not_valid (header s) = not_valid s" "focus (header s) = focus s"
  "target_length (header s) = target_length s" "stderr (header s) = stderr s"
  "stdout (header s) = stdout s @ [Header (target_length s) (focus s)]"
  "stdout (footer s) = stdout s @ [Footer]" "stderr (footer s) = stderr s"
  "target_length (footer s) = target_length s" "focus (footer s) = focus s"
  by (simp_all add: header_def footer_def printf_def)

lemma header_footer_flps_calls:
  "flps_calls (header s) = flps_calls s" "flps_calls (footer s) = flps_calls s"
  by (simp_all add: header_def footer_def printf_def)

lemma flps_main_reaches:
  assumes "getopt_loop args 0 flps_init = Inr (0, s)"
  shows "flps_main args = (0, footer (flps_calculate (header s)))"
  using assms by (simp add: flps_main_def)

lemma flps_main_stdout:
  assumes "getopt_loop args 0 flps_init = Inr (0, s)"
  shows "flps_main args =
    (0, footer (flps_calculate (header s))) \<and>
    stdout (footer (flps_calculate (header s))) =
      Header (target_length s) (focus s)
        # map (spec_A_line (focus s) (target_length s)) [2, 5, 10, 25, 40] @ [Footer]"
proof -
  from getopt_loop_quiet [OF assms] have q: "not_valid s = 0" "stdout s = []"
    by (simp_all add: flps_init_def)
  show ?thesis
    using assms q
    by (simp add: flps_main_def header_footer_fields flps_calculate_stdout)
qed



section \<open>Claims on fLPSparameters.c\<close>

text \<open>
  Claim C3. In fLPSparameters.c a computed row is reported NA if one of these holds:
  the target length is below 5 or above the row's maximum; the threshold exponent is
  above -3; \<open>small_m\<close> is below 5; the focus is NARROW, the coverage 25 and the target
  length below 50; the focus is NARROW, the coverage 40 and the target length below 100;
  the focus is DIVERSE, the coverage 40 and the target length at most 15; the focus is
  NARROW and the target length at most 10, whatever the coverage. Otherwise the row is
  valid and its parameters are printed. The theorem is about every run of \<^verbatim>\<open>main\<close>
  that reaches the calculation: \<open>s\<close> is the state after the options, and between the
  header and the footer the five lines are the NA line where the rule \<open>spec_A_na_rule\<close>
  holds of the row's values and the row of parameters where it does not. With focus
  NARROW and target length 10 the five rows are NA (the witness).
\<close>
theorem flps_rows_na_rule:
  assumes "getopt_loop args 0 flps_init = Inr (0, s)"
  shows "stdout (snd (flps_main args)) =
      Header (target_length s) (focus s)
        # map (\<lambda>cov.
            if spec_A_na_rule (focus s) cov (target_length s)
                 (spec_A_max_target_length (focus s) cov)
                 (spec_A_threshold_exponent (focus s) cov (target_length s))
                 (spec_A_small_m (focus s) cov (target_length s))
            then Text (flps_na cov (spec_A_max_target_length (focus s) cov))
            else Row_mMt cov (spec_A_small_m (focus s) cov (target_length s))
                   (spec_A_big_m (focus s) cov (target_length s))
                   (Fin (10 powr spec_A_threshold_exponent (focus s) cov (target_length s))))
          [2, 5, 10, 25, 40] @ [Footer]"
  using flps_main_stdout [OF assms] by (simp add: spec_A_line_def spec_A_invalid_def)

lemma sscanf_d_id: "- 2147483648 \<le> v \<Longrightarrow> v \<le> 2147483647 \<Longrightarrow> sscanf_d v = v"
  by (simp add: sscanf_d_def int32_id)

lemma getopt_narrow_10:
  "getopt_loop [Opt_f ''narrow'', Opt_l (Some 10)] 0 flps_init =
     Inr (0, flps_init\<lparr>focus := NARROW, target_length := 10\<rparr>)"
  by (simp add: case_f_def case_l_def c_when_def flps_init_def sscanf_d_id)

theorem flps_rows_na_rule_witness:
  "stdout (snd (flps_main [Opt_f ''narrow'', Opt_l (Some 10)])) =
     [Header 10 NARROW, Text (flps_na 2 100), Text (flps_na 5 200), Text (flps_na 10 200),
      Text (flps_na 25 300), Text (flps_na 40 300), Footer]"
  using flps_rows_na_rule [OF getopt_narrow_10]
  by (simp add: spec_A_na_rule_def spec_A_max_target_length_def flps_init_def)



lemma getopt_nil:
  "getopt_loop [] 0 flps_init = Inr (0, flps_init)" "getopt_loop [] 0 seg_init = Inr (0, seg_init)"
  by simp_all



text \<open>
  Claim C6. In fLPSparameters.c with focus NARROW, for every coverage level and every
  target length, the computed \<^verbatim>\<open>small_m\<close> equals the computed \<^verbatim>\<open>big_m\<close>: at each of
  the five calls of \<^verbatim>\<open>output_parameters\<close> the two globals are equal, and every row of
  parameters that the calculation prints shows the same number twice.
\<close>
theorem flps_narrow_small_m_is_big_m:
  assumes "focus s = NARROW"
  shows "flps_calculate s =
      flps_narrow_40 (flps_narrow_25 (flps_narrow_10 (flps_narrow_5 (flps_narrow_2 s))))
    \<and> small_m (flps_narrow_2_set s) = big_m (flps_narrow_2_set s)
    \<and> small_m (flps_narrow_5_set (flps_narrow_2 s)) = big_m (flps_narrow_5_set (flps_narrow_2 s))
    \<and> small_m (flps_narrow_10_set (flps_narrow_5 (flps_narrow_2 s)))
        = big_m (flps_narrow_10_set (flps_narrow_5 (flps_narrow_2 s)))
    \<and> small_m (flps_narrow_25_set (flps_narrow_10 (flps_narrow_5 (flps_narrow_2 s))))
        = big_m (flps_narrow_25_set (flps_narrow_10 (flps_narrow_5 (flps_narrow_2 s))))
    \<and> small_m (flps_narrow_40_set
          (flps_narrow_25 (flps_narrow_10 (flps_narrow_5 (flps_narrow_2 s)))))
        = big_m (flps_narrow_40_set
          (flps_narrow_25 (flps_narrow_10 (flps_narrow_5 (flps_narrow_2 s)))))
    \<and> (not_valid s = 0 \<longrightarrow>
         (\<forall>l \<in> set (drop (length (stdout s)) (stdout (flps_calculate s))).
            case l of Row_mMt cov m M t \<Rightarrow> m = M | _ \<Rightarrow> True))"
proof -
  have a: "small_m (flps_narrow_2_set x) = big_m (flps_narrow_2_set x)"
    "small_m (flps_narrow_5_set x) = big_m (flps_narrow_5_set x)"
    "small_m (flps_narrow_10_set x) = big_m (flps_narrow_10_set x)"
    "small_m (flps_narrow_25_set x) = big_m (flps_narrow_25_set x)"
    "small_m (flps_narrow_40_set x) = big_m (flps_narrow_40_set x)" for x
    by (simp_all add: flps_set_defs Let_def)
  have b: "case spec_A_line NARROW T cov of Row_mMt cov m M t \<Rightarrow> m = M | _ \<Rightarrow> True" for T cov
    by (simp add: spec_A_line_def spec_A_small_m_def)
  have c: "not_valid s = 0 \<Longrightarrow>
    drop (length (stdout s)) (stdout (flps_calculate s)) =
      map (spec_A_line NARROW (target_length s)) [2, 5, 10, 25, 40]"
    using assms by (simp add: flps_calculate_narrow)
  show ?thesis
    using assms a b c by (simp add: flps_calculate_def)
qed

theorem flps_narrow_small_m_is_big_m_witness:
  "small_m (flps_narrow_40_set (flps_narrow_25 (flps_narrow_10 (flps_narrow_5 (flps_narrow_2
      (flps_init\<lparr>focus := NARROW, target_length := 120\<rparr>))))))
   = big_m (flps_narrow_40_set (flps_narrow_25 (flps_narrow_10 (flps_narrow_5 (flps_narrow_2
      (flps_init\<lparr>focus := NARROW, target_length := 120\<rparr>))))))
   \<and> list_all (\<lambda>l. case l of Row_mMt cov m M t \<Rightarrow> m = M | _ \<Rightarrow> True)
       (stdout (flps_calculate (flps_init\<lparr>focus := NARROW, target_length := 120\<rparr>)))"
  using flps_narrow_small_m_is_big_m [of "flps_init\<lparr>focus := NARROW, target_length := 120\<rparr>"]
  by (simp add: flps_init_def list_all_iff)

lemma pow_10_gt_iff: "c_pow 10.0 x > Fin 0.001 \<longleftrightarrow> x > - 3"
proof -
  have e: "(10 :: real) powr (- 3) = 1 / 1000"
    by (simp add: powr_minus inverse_eq_divide)
  have "c_pow 10.0 x > Fin 0.001 \<longleftrightarrow> (10 :: real) powr (- 3) < 10 powr x"
    by (simp add: c_pow_pos e)
  also have "\<dots> \<longleftrightarrow> - 3 < x"
    by simp
  finally show ?thesis .
qed

lemma flps_na_2_100:
  "flps_na 2 100 =
     [tab] @ ''~2%'' @ [tab, tab, tab] @ ''NA [ target length <5 OR >100, OR t>0.001]'' @ [nl]"
  by (simp add: flps_na_def fmt_d_def digits.simps)

text \<open>
  Claim C4 says that the NA marker of an invalid row names the bound that the row
  violates. In fLPSparameters.c it need not. The run with the options
  \<^verbatim>\<open>-f narrow -l 10\<close> prints, after the header, the NA line of coverage 2, whose marker
  "target length <5 OR >100, OR t>0.001" names three bounds; \<^verbatim>\<open>output_parameters\<close>
  was called with the upper bound 100 and the threshold exponent -5.373, so the row
  violates none of them: the target length 10 is in 5..100 and the threshold, 10 to the
  power -5.373, is not above 0.001. The row is NA by the rule for focus NARROW and a target
  length of at most 10, which the marker does not name.
\<close>
theorem flps_na_marker_names_no_violated_bound:
  "take 2 (stdout (snd (flps_main [Opt_f ''narrow'', Opt_l (Some 10)]))) =
     [Header 10 NARROW,
      Text ([tab] @ ''~2%'' @ [tab, tab, tab]
            @ ''NA [ target length <5 OR >100, OR t>0.001]'' @ [nl])]
   \<and> (case hd (flps_calls (snd (flps_main [Opt_f ''narrow'', Opt_l (Some 10)]))) of
        (upper_bound, coverage, m, M, t) \<Rightarrow> (upper_bound, coverage, t)) = (100, 2, - 5.373)
   \<and> \<not> flps_marker_true 10 100 (c_pow 10.0 (- 5.373))"
proof -
  have 1: "take 2 (stdout (snd (flps_main [Opt_f ''narrow'', Opt_l (Some 10)]))) =
     [Header 10 NARROW, Text (flps_na 2 100)]"
    using flps_main_stdout [OF getopt_narrow_10]
    by (simp add: spec_A_line_def spec_A_invalid_def spec_A_na_rule_def
        spec_A_max_target_length_def flps_init_def)
  have 3: "\<not> flps_marker_true 10 100 (c_pow 10.0 (- 5.373))"
    unfolding flps_marker_true_def pow_10_gt_iff by simp
  have "hd (flps_calls (snd (flps_main [Opt_f ''narrow'', Opt_l (Some 10)])))
       = (100, 2, big_m (flps_narrow_2_set (flps_init\<lparr>focus := NARROW, target_length := 10\<rparr>)),
          big_m (flps_narrow_2_set (flps_init\<lparr>focus := NARROW, target_length := 10\<rparr>)),
          - 5.373)"
    by (simp add: flps_main_reaches [OF getopt_narrow_10] header_footer_flps_calls
        flps_calculate_def flps_row_globals flps_row_defs Let_def
        flps_output_parameters_calls flps_set_globals header_footer_fields
        flps_narrow_5_set_bounds flps_narrow_2_set_bounds flps_init_def
        flps_set_defs header_def printf_def)
  then have 2: "(case hd (flps_calls (snd (flps_main [Opt_f ''narrow'', Opt_l (Some 10)]))) of
        (upper_bound, coverage, m, M, t) \<Rightarrow> (upper_bound, coverage, t)) = (100, 2, - 5.373)"
    by simp
  show ?thesis
    using 1 2 3 unfolding flps_na_2_100 by blast
qed

section \<open>The rows of SEGparameters.c\<close>

lemma c_when_seg:
  "K1 (c_when c (\<lambda>s. s\<lparr>not_valid := 1\<rparr>) s) = K1 s"
  "K2 (c_when c (\<lambda>s. s\<lparr>not_valid := 1\<rparr>) s) = K2 s"
  "max_l (c_when c (\<lambda>s. s\<lparr>not_valid := 1\<rparr>) s) = max_l s"
  "L (c_when c (\<lambda>s. s\<lparr>not_valid := 1\<rparr>) s) = L s"
  "seg_calls (c_when c (\<lambda>s. s\<lparr>not_valid := 1\<rparr>) s) = seg_calls s"
  by (simp_all add: c_when_def)

lemma printf_seg:
  "L (printf l s) = L s" "seg_calls (printf l s) = seg_calls s"
  by (simp_all add: printf_def)

lemma seg_output_parameters_fields:
  "focus (seg_output_parameters ub cov s) = focus s"
  "target_length (seg_output_parameters ub cov s) = target_length s"
  "stderr (seg_output_parameters ub cov s) = stderr s"
  "L (seg_output_parameters ub cov s) = L s"
  by (simp_all add: seg_output_parameters_def Let_def c_when_globals c_when_seg printf_fields
      printf_seg split: prod.splits)

lemma seg_output_parameters_calls:
  "seg_calls (seg_output_parameters ub cov s) = seg_calls s @ [(ub, cov, L s, K1 s, K2 s)]"
  by (simp add: seg_output_parameters_def Let_def c_when_globals c_when_seg printf_fields
      printf_seg split: prod.splits)

lemma seg_output_parameters_stdout:
  "stdout (seg_output_parameters ub cov s) = stdout s @
     [if cov = 40 \<and> focus s = DIVERSE \<and> target_length s < 10 then Text (seg_na_10 cov ub)
      else if not_valid s = 0 \<and> \<not> (target_length s < 5 \<or> target_length s > ub \<or> K2 s > Fin 4.2)
      then Row_LK cov (L s) (K1 s) (K2 s)
      else Text (seg_na cov ub)]"
  unfolding seg_output_parameters_def Let_def
  by (simp add: c_when_not_valid c_when_globals c_when_seg printf_fields)

lemmas spec_B_defs = spec_B_row_def spec_B_L_def spec_B_K1_def spec_B_K2_def spec_B_max_def

lemmas seg_set_defs =
  seg_diverse_2_set_def seg_diverse_5_set_def seg_diverse_10_set_def
  seg_diverse_25_set_def seg_diverse_40_set_def
  seg_narrow_2_set_def seg_narrow_5_set_def seg_narrow_10_set_def
  seg_narrow_25_set_def seg_narrow_40_set_def

lemmas seg_row_defs =
  seg_diverse_2_def seg_diverse_5_def seg_diverse_10_def seg_diverse_25_def
  seg_diverse_40_def seg_narrow_2_def seg_narrow_5_def seg_narrow_10_def
  seg_narrow_25_def seg_narrow_40_def

lemma double_to_int_numeral:
  "numeral n \<le> (2147483647 :: int) \<Longrightarrow> double_to_int (Fin (numeral n)) = numeral n"
  by (simp add: Let_def)

lemma spec_B_max_le_300: "spec_B_max f cov \<le> 300"
  by (cases f) (simp_all add: spec_B_max_def)

lemma seg_diverse_2_set_max:
  "double_to_int (max_l (seg_diverse_2_set s)) = spec_B_max DIVERSE 2"
  by (simp add: seg_diverse_2_set_def spec_B_max_def Let_def)

lemma seg_diverse_2_set_params:
  assumes "0 < target_length s" and "target_length s \<le> 300"
  shows "seg_row_params (seg_diverse_2_set s) = spec_B_row DIVERSE 2 (target_length s)"
  using assms
  by (simp add: seg_diverse_2_set_def seg_row_params_def spec_B_defs Let_def to_int_round_pow
      to_int_round_pow_avg c_log_pos)

lemma seg_diverse_5_set_max:
  "double_to_int (max_l (seg_diverse_5_set s)) = spec_B_max DIVERSE 5"
  by (simp add: seg_diverse_5_set_def spec_B_max_def Let_def)

lemma seg_diverse_5_set_params:
  assumes "0 < target_length s" and "target_length s \<le> 300"
  shows "seg_row_params (seg_diverse_5_set s) = spec_B_row DIVERSE 5 (target_length s)"
  using assms
  by (simp add: seg_diverse_5_set_def seg_row_params_def spec_B_defs Let_def to_int_round_pow
      to_int_round_pow_avg c_log_pos)

lemma seg_diverse_10_set_max:
  "double_to_int (max_l (seg_diverse_10_set s)) = spec_B_max DIVERSE 10"
  by (simp add: seg_diverse_10_set_def spec_B_max_def Let_def)

lemma seg_diverse_10_set_params:
  assumes "0 < target_length s" and "target_length s \<le> 300"
  shows "seg_row_params (seg_diverse_10_set s) = spec_B_row DIVERSE 10 (target_length s)"
  using assms
  by (simp add: seg_diverse_10_set_def seg_row_params_def spec_B_defs Let_def to_int_round_pow
      to_int_round_pow_avg c_log_pos)

lemma seg_diverse_25_set_max:
  "double_to_int (max_l (seg_diverse_25_set s)) = spec_B_max DIVERSE 25"
  by (simp add: seg_diverse_25_set_def spec_B_max_def Let_def)

lemma seg_diverse_25_set_params:
  assumes "0 < target_length s" and "target_length s \<le> 300"
  shows "seg_row_params (seg_diverse_25_set s) = spec_B_row DIVERSE 25 (target_length s)"
  using assms
  by (simp add: seg_diverse_25_set_def seg_row_params_def spec_B_defs Let_def to_int_round_pow
      to_int_round_pow_avg c_log_pos)

lemma seg_diverse_40_set_max:
  "double_to_int (max_l (seg_diverse_40_set s)) = spec_B_max DIVERSE 40"
  by (simp add: seg_diverse_40_set_def spec_B_max_def Let_def)

lemma seg_diverse_40_set_params:
  assumes "0 < target_length s" and "target_length s \<le> 300"
  shows "seg_row_params (seg_diverse_40_set s) = spec_B_row DIVERSE 40 (target_length s)"
  using assms
  by (simp add: seg_diverse_40_set_def seg_row_params_def spec_B_defs Let_def to_int_round_pow
      to_int_round_pow_avg c_log_pos)

lemma seg_narrow_2_set_max:
  "double_to_int (max_l (seg_narrow_2_set s)) = spec_B_max NARROW 2"
  by (simp add: seg_narrow_2_set_def spec_B_max_def Let_def)

lemma seg_narrow_2_set_params:
  assumes "0 < target_length s" and "target_length s \<le> 300"
  shows "seg_row_params (seg_narrow_2_set s) = spec_B_row NARROW 2 (target_length s)"
  using assms
  by (simp add: seg_narrow_2_set_def seg_row_params_def spec_B_defs Let_def to_int_round_pow
      to_int_round_pow_avg c_log_pos)

lemma seg_narrow_2_set_fp:
  "K2 (seg_narrow_2_set s) = spec_B_fp_K2 2 (target_length s)"
  "K1 (seg_narrow_2_set s) = K2 (seg_narrow_2_set s)"
  by (simp_all add: seg_narrow_2_set_def spec_B_fp_K2_def Let_def)

lemma seg_narrow_5_set_max:
  "double_to_int (max_l (seg_narrow_5_set s)) = spec_B_max NARROW 5"
  by (simp add: seg_narrow_5_set_def spec_B_max_def Let_def)

lemma seg_narrow_5_set_params:
  assumes "0 < target_length s" and "target_length s \<le> 300" and "L s = target_length s"
  shows "seg_row_params (seg_narrow_5_set s) = spec_B_row NARROW 5 (target_length s)"
  using assms
  by (simp add: seg_narrow_5_set_def seg_row_params_def spec_B_defs Let_def to_int_round_pow
      to_int_round_pow_avg c_log_pos)

lemma seg_narrow_5_set_fp:
  "L s = target_length s \<Longrightarrow> K2 (seg_narrow_5_set s) = spec_B_fp_K2 5 (target_length s)"
  "K1 (seg_narrow_5_set s) = K2 (seg_narrow_5_set s)"
  by (simp_all add: seg_narrow_5_set_def spec_B_fp_K2_def Let_def)

lemma seg_narrow_10_set_max:
  "double_to_int (max_l (seg_narrow_10_set s)) = spec_B_max NARROW 10"
  by (simp add: seg_narrow_10_set_def spec_B_max_def Let_def)

lemma seg_narrow_10_set_params:
  assumes "0 < target_length s" and "target_length s \<le> 300" and "L s = target_length s"
  shows "seg_row_params (seg_narrow_10_set s) = spec_B_row NARROW 10 (target_length s)"
  using assms
  by (simp add: seg_narrow_10_set_def seg_row_params_def spec_B_defs Let_def to_int_round_pow
      to_int_round_pow_avg c_log_pos)

lemma seg_narrow_10_set_fp:
  "L s = target_length s \<Longrightarrow> K2 (seg_narrow_10_set s) = spec_B_fp_K2 10 (target_length s)"
  "K1 (seg_narrow_10_set s) = K2 (seg_narrow_10_set s)"
  by (simp_all add: seg_narrow_10_set_def spec_B_fp_K2_def Let_def)

lemma seg_narrow_25_set_max:
  "double_to_int (max_l (seg_narrow_25_set s)) = spec_B_max NARROW 25"
  by (simp add: seg_narrow_25_set_def spec_B_max_def Let_def)

lemma seg_narrow_25_set_params:
  assumes "0 < target_length s" and "target_length s \<le> 300" and "L s = target_length s"
  shows "seg_row_params (seg_narrow_25_set s) = spec_B_row NARROW 25 (target_length s)"
  using assms
  by (simp add: seg_narrow_25_set_def seg_row_params_def spec_B_defs Let_def to_int_round_pow
      to_int_round_pow_avg c_log_pos)

lemma seg_narrow_25_set_fp:
  "L s = target_length s \<Longrightarrow> K2 (seg_narrow_25_set s) = spec_B_fp_K2 25 (target_length s)"
  "K1 (seg_narrow_25_set s) = K2 (seg_narrow_25_set s)"
  by (simp_all add: seg_narrow_25_set_def spec_B_fp_K2_def Let_def)

lemma seg_narrow_40_set_max:
  "double_to_int (max_l (seg_narrow_40_set s)) = spec_B_max NARROW 40"
  by (simp add: seg_narrow_40_set_def spec_B_max_def Let_def)

lemma seg_narrow_40_set_params:
  assumes "0 < target_length s" and "target_length s \<le> 300" and "L s = target_length s"
  shows "seg_row_params (seg_narrow_40_set s) = spec_B_row NARROW 40 (target_length s)"
  using assms
  by (simp add: seg_narrow_40_set_def seg_row_params_def spec_B_defs Let_def to_int_round_pow
      to_int_round_pow_avg c_log_pos)

lemma seg_narrow_40_set_fp:
  "L s = target_length s \<Longrightarrow> K2 (seg_narrow_40_set s) = spec_B_fp_K2 40 (target_length s)"
  "K1 (seg_narrow_40_set s) = K2 (seg_narrow_40_set s)"
  by (simp_all add: seg_narrow_40_set_def spec_B_fp_K2_def Let_def)

lemma seg_set_globals:
  "focus (seg_diverse_2_set s) = focus s \<and> target_length (seg_diverse_2_set s) = target_length s
   \<and> stdout (seg_diverse_2_set s) = stdout s \<and> stderr (seg_diverse_2_set s) = stderr s
   \<and> not_valid (seg_diverse_2_set s) = not_valid s \<and> seg_calls (seg_diverse_2_set s) = seg_calls s"
  "focus (seg_diverse_5_set s) = focus s \<and> target_length (seg_diverse_5_set s) = target_length s
   \<and> stdout (seg_diverse_5_set s) = stdout s \<and> stderr (seg_diverse_5_set s) = stderr s
   \<and> not_valid (seg_diverse_5_set s) = 0 \<and> seg_calls (seg_diverse_5_set s) = seg_calls s"
  "focus (seg_diverse_10_set s) = focus s \<and> target_length (seg_diverse_10_set s) = target_length s
   \<and> stdout (seg_diverse_10_set s) = stdout s \<and> stderr (seg_diverse_10_set s) = stderr s
   \<and> not_valid (seg_diverse_10_set s) = 0 \<and> seg_calls (seg_diverse_10_set s) = seg_calls s"
  "focus (seg_diverse_25_set s) = focus s \<and> target_length (seg_diverse_25_set s) = target_length s
   \<and> stdout (seg_diverse_25_set s) = stdout s \<and> stderr (seg_diverse_25_set s) = stderr s
   \<and> not_valid (seg_diverse_25_set s) = 0 \<and> seg_calls (seg_diverse_25_set s) = seg_calls s"
  "focus (seg_diverse_40_set s) = focus s \<and> target_length (seg_diverse_40_set s) = target_length s
   \<and> stdout (seg_diverse_40_set s) = stdout s \<and> stderr (seg_diverse_40_set s) = stderr s
   \<and> not_valid (seg_diverse_40_set s) = 0 \<and> seg_calls (seg_diverse_40_set s) = seg_calls s"
  "focus (seg_narrow_2_set s) = focus s \<and> target_length (seg_narrow_2_set s) = target_length s
   \<and> stdout (seg_narrow_2_set s) = stdout s \<and> stderr (seg_narrow_2_set s) = stderr s
   \<and> not_valid (seg_narrow_2_set s) = not_valid s \<and> seg_calls (seg_narrow_2_set s) = seg_calls s"
  "focus (seg_narrow_5_set s) = focus s \<and> target_length (seg_narrow_5_set s) = target_length s
   \<and> stdout (seg_narrow_5_set s) = stdout s \<and> stderr (seg_narrow_5_set s) = stderr s
   \<and> not_valid (seg_narrow_5_set s) = 0 \<and> seg_calls (seg_narrow_5_set s) = seg_calls s"
  "focus (seg_narrow_10_set s) = focus s \<and> target_length (seg_narrow_10_set s) = target_length s
   \<and> stdout (seg_narrow_10_set s) = stdout s \<and> stderr (seg_narrow_10_set s) = stderr s
   \<and> not_valid (seg_narrow_10_set s) = 0 \<and> seg_calls (seg_narrow_10_set s) = seg_calls s"
  "focus (seg_narrow_25_set s) = focus s \<and> target_length (seg_narrow_25_set s) = target_length s
   \<and> stdout (seg_narrow_25_set s) = stdout s \<and> stderr (seg_narrow_25_set s) = stderr s
   \<and> not_valid (seg_narrow_25_set s) = 0 \<and> seg_calls (seg_narrow_25_set s) = seg_calls s"
  "focus (seg_narrow_40_set s) = focus s \<and> target_length (seg_narrow_40_set s) = target_length s
   \<and> stdout (seg_narrow_40_set s) = stdout s \<and> stderr (seg_narrow_40_set s) = stderr s
   \<and> not_valid (seg_narrow_40_set s) = 0 \<and> seg_calls (seg_narrow_40_set s) = seg_calls s"
  by (simp_all add: seg_set_defs Let_def)

lemma seg_narrow_set_L:
  "L (seg_narrow_2_set s) = target_length s"
  "L (seg_narrow_5_set s) = L s"
  "L (seg_narrow_10_set s) = L s"
  "L (seg_narrow_25_set s) = L s"
  "L (seg_narrow_40_set s) = L s"
  by (simp_all add: seg_set_defs Let_def)

lemma seg_row_stdout:
  assumes "0 < T \<Longrightarrow> T \<le> 300 \<Longrightarrow> seg_row_params s' = spec_B_row f cov T"
    and "double_to_int (max_l s') = spec_B_max f cov"
    and "focus s' = f" and "target_length s' = T" and "not_valid s' = 0"
  shows "stdout (seg_output_parameters (double_to_int (max_l s')) cov s')
    = stdout s' @ [spec_B_line f T cov]"
proof (cases "5 \<le> T \<and> T \<le> 300")
  case True
  then have "seg_row_params s' = spec_B_row f cov T"
    using assms(1) by simp
  then show ?thesis
    using assms(3-5)
    by (simp add: seg_output_parameters_stdout seg_row_params_def spec_B_row_def spec_B_line_def)
next
  case False
  then have "T < 5 \<or> spec_B_max f cov < T"
    using spec_B_max_le_300 [of f cov] by linarith
  then show ?thesis
    using assms(2-5)
    by (auto simp add: seg_output_parameters_stdout spec_B_line_def)
qed

lemma seg_diverse_2_stdout:
  "focus s = DIVERSE \<Longrightarrow> not_valid s = 0 \<Longrightarrow> 
   stdout (seg_diverse_2 s) = stdout s @ [spec_B_line DIVERSE (target_length s) 2]"
  unfolding seg_diverse_2_def Let_def
  by (rule trans [OF seg_row_stdout [where f = DIVERSE and T = "target_length s"]])
     (simp_all add: seg_diverse_2_set_params seg_diverse_2_set_max seg_set_globals)

lemma seg_diverse_5_stdout:
  "focus s = DIVERSE \<Longrightarrow> 
   stdout (seg_diverse_5 s) = stdout s @ [spec_B_line DIVERSE (target_length s) 5]"
  unfolding seg_diverse_5_def Let_def
  by (rule trans [OF seg_row_stdout [where f = DIVERSE and T = "target_length s"]])
     (simp_all add: seg_diverse_5_set_params seg_diverse_5_set_max seg_set_globals)

lemma seg_diverse_10_stdout:
  "focus s = DIVERSE \<Longrightarrow> 
   stdout (seg_diverse_10 s) = stdout s @ [spec_B_line DIVERSE (target_length s) 10]"
  unfolding seg_diverse_10_def Let_def
  by (rule trans [OF seg_row_stdout [where f = DIVERSE and T = "target_length s"]])
     (simp_all add: seg_diverse_10_set_params seg_diverse_10_set_max seg_set_globals)

lemma seg_diverse_25_stdout:
  "focus s = DIVERSE \<Longrightarrow> 
   stdout (seg_diverse_25 s) = stdout s @ [spec_B_line DIVERSE (target_length s) 25]"
  unfolding seg_diverse_25_def Let_def
  by (rule trans [OF seg_row_stdout [where f = DIVERSE and T = "target_length s"]])
     (simp_all add: seg_diverse_25_set_params seg_diverse_25_set_max seg_set_globals)

lemma seg_diverse_40_stdout:
  "focus s = DIVERSE \<Longrightarrow> 
   stdout (seg_diverse_40 s) = stdout s @ [spec_B_line DIVERSE (target_length s) 40]"
  unfolding seg_diverse_40_def Let_def
  by (rule trans [OF seg_row_stdout [where f = DIVERSE and T = "target_length s"]])
     (simp_all add: seg_diverse_40_set_params seg_diverse_40_set_max seg_set_globals)

lemma seg_narrow_2_stdout:
  "focus s = NARROW \<Longrightarrow> not_valid s = 0 \<Longrightarrow> 
   stdout (seg_narrow_2 s) = stdout s @ [spec_B_line NARROW (target_length s) 2]"
  unfolding seg_narrow_2_def Let_def
  by (rule trans [OF seg_row_stdout [where f = NARROW and T = "target_length s"]])
     (simp_all add: seg_narrow_2_set_params seg_narrow_2_set_max seg_set_globals)

lemma seg_narrow_5_stdout:
  "focus s = NARROW \<Longrightarrow> L s = target_length s \<Longrightarrow> 
   stdout (seg_narrow_5 s) = stdout s @ [spec_B_line NARROW (target_length s) 5]"
  unfolding seg_narrow_5_def Let_def
  by (rule trans [OF seg_row_stdout [where f = NARROW and T = "target_length s"]])
     (simp_all add: seg_narrow_5_set_params seg_narrow_5_set_max seg_set_globals)

lemma seg_narrow_10_stdout:
  "focus s = NARROW \<Longrightarrow> L s = target_length s \<Longrightarrow> 
   stdout (seg_narrow_10 s) = stdout s @ [spec_B_line NARROW (target_length s) 10]"
  unfolding seg_narrow_10_def Let_def
  by (rule trans [OF seg_row_stdout [where f = NARROW and T = "target_length s"]])
     (simp_all add: seg_narrow_10_set_params seg_narrow_10_set_max seg_set_globals)

lemma seg_narrow_25_stdout:
  "focus s = NARROW \<Longrightarrow> L s = target_length s \<Longrightarrow> 
   stdout (seg_narrow_25 s) = stdout s @ [spec_B_line NARROW (target_length s) 25]"
  unfolding seg_narrow_25_def Let_def
  by (rule trans [OF seg_row_stdout [where f = NARROW and T = "target_length s"]])
     (simp_all add: seg_narrow_25_set_params seg_narrow_25_set_max seg_set_globals)

lemma seg_narrow_40_stdout:
  "focus s = NARROW \<Longrightarrow> L s = target_length s \<Longrightarrow> 
   stdout (seg_narrow_40 s) = stdout s @ [spec_B_line NARROW (target_length s) 40]"
  unfolding seg_narrow_40_def Let_def
  by (rule trans [OF seg_row_stdout [where f = NARROW and T = "target_length s"]])
     (simp_all add: seg_narrow_40_set_params seg_narrow_40_set_max seg_set_globals)

lemma seg_row_globals:
  "focus (seg_diverse_2 s) = focus s \<and> target_length (seg_diverse_2 s) = target_length s
   \<and> stderr (seg_diverse_2 s) = stderr s"
  "focus (seg_diverse_5 s) = focus s \<and> target_length (seg_diverse_5 s) = target_length s
   \<and> stderr (seg_diverse_5 s) = stderr s"
  "focus (seg_diverse_10 s) = focus s \<and> target_length (seg_diverse_10 s) = target_length s
   \<and> stderr (seg_diverse_10 s) = stderr s"
  "focus (seg_diverse_25 s) = focus s \<and> target_length (seg_diverse_25 s) = target_length s
   \<and> stderr (seg_diverse_25 s) = stderr s"
  "focus (seg_diverse_40 s) = focus s \<and> target_length (seg_diverse_40 s) = target_length s
   \<and> stderr (seg_diverse_40 s) = stderr s"
  "focus (seg_narrow_2 s) = focus s \<and> target_length (seg_narrow_2 s) = target_length s
   \<and> stderr (seg_narrow_2 s) = stderr s"
  "focus (seg_narrow_5 s) = focus s \<and> target_length (seg_narrow_5 s) = target_length s
   \<and> stderr (seg_narrow_5 s) = stderr s"
  "focus (seg_narrow_10 s) = focus s \<and> target_length (seg_narrow_10 s) = target_length s
   \<and> stderr (seg_narrow_10 s) = stderr s"
  "focus (seg_narrow_25 s) = focus s \<and> target_length (seg_narrow_25 s) = target_length s
   \<and> stderr (seg_narrow_25 s) = stderr s"
  "focus (seg_narrow_40 s) = focus s \<and> target_length (seg_narrow_40 s) = target_length s
   \<and> stderr (seg_narrow_40 s) = stderr s"
  unfolding seg_row_defs Let_def
  by (simp_all add: seg_output_parameters_fields seg_set_globals)

lemma seg_narrow_row_L:
  "L (seg_narrow_2 s) = target_length s"
  "L (seg_narrow_5 s) = L s"
  "L (seg_narrow_10 s) = L s"
  "L (seg_narrow_25 s) = L s"
  "L (seg_narrow_40 s) = L s"
  unfolding seg_row_defs Let_def
  by (simp_all add: seg_output_parameters_fields seg_narrow_set_L)

lemma seg_narrow_2_calls:
  "seg_calls (seg_narrow_2 s) = seg_calls s @
     [(spec_B_max NARROW 2, 2, target_length s, spec_B_fp_K2 2 (target_length s),
       spec_B_fp_K2 2 (target_length s))]"
  unfolding seg_narrow_2_def Let_def
  by (simp add: seg_output_parameters_calls seg_narrow_2_set_fp seg_narrow_2_set_max seg_set_globals
      seg_narrow_set_L)

lemma seg_narrow_5_calls:
  "L s = target_length s \<Longrightarrow> seg_calls (seg_narrow_5 s) = seg_calls s @
     [(spec_B_max NARROW 5, 5, target_length s, spec_B_fp_K2 5 (target_length s),
       spec_B_fp_K2 5 (target_length s))]"
  unfolding seg_narrow_5_def Let_def
  by (simp add: seg_output_parameters_calls seg_narrow_5_set_fp seg_narrow_5_set_max seg_set_globals
      seg_narrow_set_L)

lemma seg_narrow_10_calls:
  "L s = target_length s \<Longrightarrow> seg_calls (seg_narrow_10 s) = seg_calls s @
     [(spec_B_max NARROW 10, 10, target_length s, spec_B_fp_K2 10 (target_length s),
       spec_B_fp_K2 10 (target_length s))]"
  unfolding seg_narrow_10_def Let_def
  by (simp add: seg_output_parameters_calls seg_narrow_10_set_fp seg_narrow_10_set_max seg_set_globals
      seg_narrow_set_L)

lemma seg_narrow_25_calls:
  "L s = target_length s \<Longrightarrow> seg_calls (seg_narrow_25 s) = seg_calls s @
     [(spec_B_max NARROW 25, 25, target_length s, spec_B_fp_K2 25 (target_length s),
       spec_B_fp_K2 25 (target_length s))]"
  unfolding seg_narrow_25_def Let_def
  by (simp add: seg_output_parameters_calls seg_narrow_25_set_fp seg_narrow_25_set_max seg_set_globals
      seg_narrow_set_L)

lemma seg_narrow_40_calls:
  "L s = target_length s \<Longrightarrow> seg_calls (seg_narrow_40 s) = seg_calls s @
     [(spec_B_max NARROW 40, 40, target_length s, spec_B_fp_K2 40 (target_length s),
       spec_B_fp_K2 40 (target_length s))]"
  unfolding seg_narrow_40_def Let_def
  by (simp add: seg_output_parameters_calls seg_narrow_40_set_fp seg_narrow_40_set_max seg_set_globals
      seg_narrow_set_L)

lemma seg_diverse_2_calls:
  "seg_calls (seg_diverse_2 s) = seg_calls s @
     [(spec_B_max DIVERSE 2, 2, L (seg_diverse_2_set s), K1 (seg_diverse_2_set s), K2 (seg_diverse_2_set s))]"
  unfolding seg_diverse_2_def Let_def
  by (simp add: seg_output_parameters_calls seg_diverse_2_set_max seg_set_globals)

lemma seg_diverse_5_calls:
  "seg_calls (seg_diverse_5 s) = seg_calls s @
     [(spec_B_max DIVERSE 5, 5, L (seg_diverse_5_set s), K1 (seg_diverse_5_set s), K2 (seg_diverse_5_set s))]"
  unfolding seg_diverse_5_def Let_def
  by (simp add: seg_output_parameters_calls seg_diverse_5_set_max seg_set_globals)

lemma seg_diverse_10_calls:
  "seg_calls (seg_diverse_10 s) = seg_calls s @
     [(spec_B_max DIVERSE 10, 10, L (seg_diverse_10_set s), K1 (seg_diverse_10_set s), K2 (seg_diverse_10_set s))]"
  unfolding seg_diverse_10_def Let_def
  by (simp add: seg_output_parameters_calls seg_diverse_10_set_max seg_set_globals)

lemma seg_diverse_25_calls:
  "seg_calls (seg_diverse_25 s) = seg_calls s @
     [(spec_B_max DIVERSE 25, 25, L (seg_diverse_25_set s), K1 (seg_diverse_25_set s), K2 (seg_diverse_25_set s))]"
  unfolding seg_diverse_25_def Let_def
  by (simp add: seg_output_parameters_calls seg_diverse_25_set_max seg_set_globals)

lemma seg_diverse_40_calls:
  "seg_calls (seg_diverse_40 s) = seg_calls s @
     [(spec_B_max DIVERSE 40, 40, L (seg_diverse_40_set s), K1 (seg_diverse_40_set s), K2 (seg_diverse_40_set s))]"
  unfolding seg_diverse_40_def Let_def
  by (simp add: seg_output_parameters_calls seg_diverse_40_set_max seg_set_globals)

lemma seg_calculate_diverse:
  assumes "focus s = DIVERSE" and "not_valid s = 0"
  shows "stdout (seg_calculate s) =
    stdout s @ map (spec_B_line DIVERSE (target_length s)) [2, 5, 10, 25, 40]"
  using assms
  by (simp add: seg_calculate_def seg_diverse_2_stdout seg_diverse_5_stdout
      seg_diverse_10_stdout seg_diverse_25_stdout seg_diverse_40_stdout seg_row_globals)

lemma seg_calculate_narrow:
  assumes "focus s = NARROW" and "not_valid s = 0"
  shows "stdout (seg_calculate s) =
    stdout s @ map (spec_B_line NARROW (target_length s)) [2, 5, 10, 25, 40]"
  using assms
  by (simp add: seg_calculate_def seg_narrow_2_stdout seg_narrow_5_stdout
      seg_narrow_10_stdout seg_narrow_25_stdout seg_narrow_40_stdout seg_row_globals
      seg_narrow_row_L)

lemma seg_calculate_stdout:
  assumes "not_valid s = 0"
  shows "stdout (seg_calculate s) =
    stdout s @ map (spec_B_line (focus s) (target_length s)) [2, 5, 10, 25, 40]"
  using assms seg_calculate_diverse [of s] seg_calculate_narrow [of s]
  by (cases "focus s") simp_all

lemma seg_calculate_narrow_calls:
  assumes "focus s = NARROW"
  shows "seg_calls (seg_calculate s) = seg_calls s @
    map (\<lambda>cov. (spec_B_max NARROW cov, cov, target_length s,
                 spec_B_fp_K2 cov (target_length s), spec_B_fp_K2 cov (target_length s)))
      [2, 5, 10, 25, 40]"
  using assms
  by (simp add: seg_calculate_def seg_narrow_2_calls seg_narrow_5_calls
      seg_narrow_10_calls seg_narrow_25_calls seg_narrow_40_calls seg_row_globals
      seg_narrow_row_L)

lemma getopt_loop_seg_calls:
  "getopt_loop args e s = Inr (e', s') \<Longrightarrow> seg_calls s' = seg_calls s"
  by (induction args e s rule: getopt_loop.induct)
     (simp_all add: case_f_def case_l_def Let_def c_when_def fprintf_stderr_def
       split: option.splits)

lemma header_footer_seg_calls:
  "seg_calls (header s) = seg_calls s" "seg_calls (footer s) = seg_calls s"
  by (simp_all add: header_def footer_def printf_def)

lemma seg_main_reaches:
  assumes "getopt_loop args 0 seg_init = Inr (0, s)"
  shows "seg_main args = (0, footer (seg_calculate (header s)))"
  using assms by (simp add: seg_main_def)

lemma seg_main_stdout:
  assumes "getopt_loop args 0 seg_init = Inr (0, s)"
  shows "seg_main args =
    (0, footer (seg_calculate (header s))) \<and>
    stdout (footer (seg_calculate (header s))) =
      Header (target_length s) (focus s)
        # map (spec_B_line (focus s) (target_length s)) [2, 5, 10, 25, 40] @ [Footer]"
proof -
  from getopt_loop_quiet [OF assms] have q: "not_valid s = 0" "stdout s = []"
    by (simp_all add: seg_init_def)
  show ?thesis
    using assms q
    by (simp add: seg_main_def header_footer_fields seg_calculate_stdout)
qed

lemma seg_main_narrow_calls:
  assumes "getopt_loop args 0 seg_init = Inr (0, s)" and "focus s = NARROW"
  shows "seg_calls (snd (seg_main args)) =
    map (\<lambda>cov. (spec_B_max NARROW cov, cov, target_length s,
                 spec_B_fp_K2 cov (target_length s), spec_B_fp_K2 cov (target_length s)))
      [2, 5, 10, 25, 40]"
proof -
  from getopt_loop_seg_calls [OF assms(1)] have "seg_calls s = []"
    by (simp add: seg_init_def)
  then show ?thesis
    using assms
    by (simp add: seg_main_reaches header_footer_seg_calls header_footer_fields
        seg_calculate_narrow_calls)
qed


lemma seg_snapshots_params:
  assumes "0 < target_length s" and "target_length s \<le> 300"
  shows "map seg_row_params (seg_snapshots s) =
     map (\<lambda>cov. spec_B_row (focus s) cov (target_length s)) [2, 5, 10, 25, 40]"
proof (cases "focus s")
  case DIVERSE
  then show ?thesis
    using assms
    by (simp add: seg_snapshots_def seg_diverse_2_set_params seg_diverse_5_set_params
        seg_diverse_10_set_params seg_diverse_25_set_params seg_diverse_40_set_params
        seg_row_globals)
next
  case NARROW
  then show ?thesis
    using assms
    by (simp add: seg_snapshots_def seg_narrow_2_set_params seg_narrow_5_set_params
        seg_narrow_10_set_params seg_narrow_25_set_params seg_narrow_40_set_params
        seg_row_globals seg_narrow_row_L)
qed

section \<open>The runs of SEGparameters.c\<close>


lemma getopt_seg_narrow:
  "getopt_loop [Opt_f ''narrow''] 0 seg_init = Inr (0, seg_init\<lparr>focus := NARROW\<rparr>)"
  by (simp add: case_f_def seg_init_def)

lemma c_log_negative: "x < 0 \<Longrightarrow> c_log x = NaN"
  by (simp add: c_log_def)



lemma seg_K1_le_K2_from_1:
  assumes "0 < target_length s" and "target_length s \<le> 300"
  shows "\<forall>x \<in> set (seg_snapshots s). K1 x \<le> K2 x"
proof -
  have "\<forall>r \<in> set (map seg_row_params (seg_snapshots s)). fst (snd r) \<le> fst (snd (snd r))"
    unfolding seg_snapshots_params [OF assms]
    by (cases "focus s") (simp_all add: spec_B_row_def spec_B_K1_def)
  then show ?thesis
    by (simp add: seg_row_params_def)
qed

text \<open>
  Claim C7 says that in SEGparameters.c the computed pair satisfies \<open>K1 \<le> K2\<close> for
  every target length, both focus modes and every coverage level. A run without
  \<^verbatim>\<open>-l\<close> leaves the target length at -1 and computes the five rows from it: with
  the default focus and with \<^verbatim>\<open>-f narrow\<close>, at every call of \<^verbatim>\<open>output_parameters\<close>
  both \<^verbatim>\<open>K1\<close> and \<^verbatim>\<open>K2\<close> are NaN, the logarithm of a negative number, and no
  comparison of C holds of NaN.
\<close>
theorem seg_K1_K2_nan_without_l:
  "map (\<lambda>(ub, cov, l, k1, k2). (cov, k1, k2)) (seg_calls (snd (seg_main []))) =
     [(2, NaN, NaN), (5, NaN, NaN), (10, NaN, NaN), (25, NaN, NaN), (40, NaN, NaN)]
   \<and> map (\<lambda>(ub, cov, l, k1, k2). (cov, k1, k2)) (seg_calls (snd (seg_main [Opt_f ''narrow'']))) =
     [(2, NaN, NaN), (5, NaN, NaN), (10, NaN, NaN), (25, NaN, NaN), (40, NaN, NaN)]
   \<and> \<not> (NaN :: double) \<le> NaN
   \<and> target_length (snd (seg_main [])) = - 1"
proof -
  have i: "seg_calls seg_init = []" "focus seg_init = DIVERSE" "target_length seg_init = - 1"
    by (simp_all add: seg_init_def)
  have k: "target_length x = - 1 \<Longrightarrow> K1 (seg_diverse_2_set x) = NaN \<and> K2 (seg_diverse_2_set x) = NaN"
    "target_length x = - 1 \<Longrightarrow> K1 (seg_diverse_5_set x) = NaN \<and> K2 (seg_diverse_5_set x) = NaN"
    "target_length x = - 1 \<Longrightarrow> K1 (seg_diverse_10_set x) = NaN \<and> K2 (seg_diverse_10_set x) = NaN"
    "target_length x = - 1 \<Longrightarrow> K1 (seg_diverse_25_set x) = NaN \<and> K2 (seg_diverse_25_set x) = NaN"
    "target_length x = - 1 \<Longrightarrow> K1 (seg_diverse_40_set x) = NaN \<and> K2 (seg_diverse_40_set x) = NaN"
    for x
    by (simp_all add: seg_set_defs Let_def c_log_negative)
  have 1: "map (\<lambda>(ub, cov, l, k1, k2). (cov, k1, k2)) (seg_calls (snd (seg_main []))) =
     [(2, NaN, NaN), (5, NaN, NaN), (10, NaN, NaN), (25, NaN, NaN), (40, NaN, NaN)]"
    by (simp add: seg_main_reaches [OF getopt_nil(2)] header_footer_seg_calls
        header_footer_fields seg_calculate_def i seg_diverse_2_calls seg_diverse_5_calls
        seg_diverse_10_calls seg_diverse_25_calls seg_diverse_40_calls seg_row_globals k)
  have 2: "map (\<lambda>(ub, cov, l, k1, k2). (cov, k1, k2))
      (seg_calls (snd (seg_main [Opt_f ''narrow'']))) =
     [(2, NaN, NaN), (5, NaN, NaN), (10, NaN, NaN), (25, NaN, NaN), (40, NaN, NaN)]"
    using seg_main_narrow_calls [OF getopt_seg_narrow]
    by (simp add: seg_init_def spec_B_fp_K2_def c_log_negative)
  have 3: "target_length (snd (seg_main [])) = - 1"
    by (simp add: seg_main_reaches [OF getopt_nil(2)] header_footer_fields seg_calculate_def i
        seg_row_globals)
  from 1 2 3 show ?thesis by simp
qed

section \<open>Claims on the rows of both programs\<close>

lemma na_prefixes:
  "prefix (na_prefix cov) (flps_na cov ub)"
  "prefix (na_prefix cov) (seg_na cov ub)"
  "prefix (na_prefix cov) (seg_na_10 cov ub)"
  by (simp_all add: na_prefix_def flps_na_def seg_na_def seg_na_10_def)

lemma is_row_for_spec_line:
  "is_row_for cov (spec_A_line f T cov)" "is_row_for cov (spec_B_line f T cov)"
  by (simp_all add: is_row_for_def spec_A_line_def spec_B_line_def na_prefixes)

text \<open>
  Claim C8. In both programs, for every target length from 5 to 300 and both focus
  modes, exactly five rows are printed, in the order of the coverage levels 2, 5, 10, 25,
  40; each is the row of parameters of its coverage level or an NA line for it, and all
  five lines appear whichever rows are invalid. The theorem gives the whole output of a
  run that reaches the calculation: the header, the five lines of the coverages 2, 5, 10,
  25 and 40 in this order, and the footer; the line of a coverage is its NA line when
  the row is invalid, with the row's upper bound, and the row of its parameters otherwise,
  whatever the other four lines are.
\<close>
theorem five_rows_in_coverage_order:
  assumes "getopt_loop args 0 flps_init = Inr (0, sa)"
    and "getopt_loop args 0 seg_init = Inr (0, sb)"
    and "5 \<le> target_length sa" and "target_length sa \<le> 300"
  shows "stdout (snd (flps_main args)) =
        Header (target_length sa) (focus sa)
          # map (spec_A_line (focus sa) (target_length sa)) [2, 5, 10, 25, 40] @ [Footer]
    \<and> stdout (snd (seg_main args)) =
        Header (target_length sb) (focus sb)
          # map (spec_B_line (focus sb) (target_length sb)) [2, 5, 10, 25, 40] @ [Footer]
    \<and> list_all2 is_row_for [2, 5, 10, 25, 40]
         (map (spec_A_line (focus sa) (target_length sa)) [2, 5, 10, 25, 40])
    \<and> list_all2 is_row_for [2, 5, 10, 25, 40]
         (map (spec_B_line (focus sb) (target_length sb)) [2, 5, 10, 25, 40])
    \<and> (\<forall>cov.
          spec_A_line (focus sa) (target_length sa) cov =
            (if spec_A_invalid (focus sa) (target_length sa) cov
             then Text (flps_na cov (spec_A_max_target_length (focus sa) cov))
             else Row_mMt cov (spec_A_small_m (focus sa) cov (target_length sa))
                    (spec_A_big_m (focus sa) cov (target_length sa))
                    (Fin (10 powr spec_A_threshold_exponent (focus sa) cov (target_length sa))))
        \<and> spec_B_line (focus sb) (target_length sb) cov =
            (if focus sb = DIVERSE \<and> cov = 40 \<and> target_length sb < 10
             then Text (seg_na_10 cov (spec_B_max (focus sb) cov))
             else if target_length sb < 5 \<or> target_length sb > spec_B_max (focus sb) cov
                     \<or> spec_B_K2 (focus sb) cov (target_length sb) > 4.2
             then Text (seg_na cov (spec_B_max (focus sb) cov))
             else Row_LK cov (spec_B_L (focus sb) cov (target_length sb))
                    (Fin (spec_B_K1 (focus sb) cov (target_length sb)))
                    (Fin (spec_B_K2 (focus sb) cov (target_length sb)))))"
  using flps_main_stdout [OF assms(1)] seg_main_stdout [OF assms(2)]
  by (simp add: is_row_for_spec_line) (simp add: spec_A_line_def spec_B_line_def)

lemma getopt_seg_9:
  "getopt_loop [Opt_l (Some 9)] 0 seg_init = Inr (0, seg_init\<lparr>target_length := 9\<rparr>)"
  by (simp add: case_l_def c_when_def seg_init_def sscanf_d_id)

lemma getopt_flps_9:
  "getopt_loop [Opt_l (Some 9)] 0 flps_init = Inr (0, flps_init\<lparr>target_length := 9\<rparr>)"
  by (simp add: case_l_def c_when_def flps_init_def sscanf_d_id)

theorem five_rows_in_coverage_order_witness:
  "stdout (snd (flps_main [Opt_l (Some 9)])) =
     Header 9 DIVERSE # map (spec_A_line DIVERSE 9) [2, 5, 10, 25, 40] @ [Footer]
   \<and> stdout (snd (seg_main [Opt_l (Some 9)])) =
     Header 9 DIVERSE # map (spec_B_line DIVERSE 9) [2, 5, 10, 25, 40] @ [Footer]
   \<and> spec_A_line DIVERSE 9 40 = Text (flps_na 40 300)
   \<and> spec_B_line DIVERSE 9 40 = Text (seg_na_10 40 300)
   \<and> is_row_for 2 (spec_A_line DIVERSE 9 2) \<and> is_row_for 2 (spec_B_line DIVERSE 9 2)"
proof -
  have f: "focus (flps_init\<lparr>target_length := 9\<rparr>) = DIVERSE"
    "target_length (flps_init\<lparr>target_length := 9\<rparr>) = 9"
    "focus (seg_init\<lparr>target_length := 9\<rparr>) = DIVERSE"
    "target_length (seg_init\<lparr>target_length := 9\<rparr>) = 9"
    by (simp_all add: flps_init_def seg_init_def)
  have r: "(5 :: int) \<le> 9" "(9 :: int) \<le> 300" by simp_all
  note a = five_rows_in_coverage_order [OF getopt_flps_9 getopt_seg_9, unfolded f, OF r]
  note a1 = a [THEN conjunct1]
  note a2 = a [THEN conjunct2, THEN conjunct1]
  note a3 = a [THEN conjunct2, THEN conjunct2, THEN conjunct1]
  note a4 = a [THEN conjunct2, THEN conjunct2, THEN conjunct2, THEN conjunct1]
  note a5 = a [THEN conjunct2, THEN conjunct2, THEN conjunct2, THEN conjunct2, THEN spec, of 40]
  have 1: "spec_A_line DIVERSE 9 40 = Text (flps_na 40 300)"
    using a5 [THEN conjunct1]
    by (simp add: spec_A_invalid_def spec_A_na_rule_def spec_A_max_target_length_def)
  have 2: "spec_B_line DIVERSE 9 40 = Text (seg_na_10 40 300)"
    using a5 [THEN conjunct2] by (simp add: spec_B_max_def)
  have 3: "is_row_for 2 (spec_A_line DIVERSE 9 2)"
    using a3 by simp
  have 4: "is_row_for 2 (spec_B_line DIVERSE 9 2)"
    using a4 by simp
  show ?thesis
    using a1 a2 1 2 3 4 by blast
qed

lemma seg_na_10_40_300:
  "seg_na_10 40 300 =
     [tab] @ ''~40%'' @ [tab, tab, tab] @ ''NA [ target length <10 OR >300, OR K2>4.2]'' @ [nl]"
  by (simp add: seg_na_10_def fmt_d_def digits.simps)

lemma seg_na_distinct:
  "seg_na 2 200 \<noteq> seg_na 40 300" "seg_na 5 300 \<noteq> seg_na 40 300"
  "seg_na 10 300 \<noteq> seg_na 40 300" "seg_na 25 300 \<noteq> seg_na 40 300"
  "seg_na_10 40 300 \<noteq> seg_na 40 300"
  by (simp_all add: seg_na_def seg_na_10_def fmt_d_def digits.simps)

text \<open>
  Claim C5. In SEGparameters.c with focus DIVERSE, the row of coverage 40 of a target
  length below 10 is invalid and is reported with the NA line that names
  "target length <10", and the generic line of that row, which names "<5", is not
  printed; the run with target length 9 is the witness.
\<close>
theorem seg_diverse_40_below_10:
  assumes "getopt_loop args 0 seg_init = Inr (0, s)"
    and "focus s = DIVERSE" and "target_length s < 10"
  shows "stdout (snd (seg_main args)) ! 5 =
      Text ([tab] @ ''~40%'' @ [tab, tab, tab]
            @ ''NA [ target length <10 OR >300, OR K2>4.2]'' @ [nl])
    \<and> Text (seg_na 40 300) \<notin> set (stdout (snd (seg_main args)))"
proof -
  have n: "spec_B_line DIVERSE (target_length s) 40 = Text (seg_na_10 40 300)"
    using assms(3) by (simp add: spec_B_line_def spec_B_max_def)
  have o: "spec_B_line DIVERSE (target_length s) 2 \<noteq> Text (seg_na 40 300)"
    "spec_B_line DIVERSE (target_length s) 5 \<noteq> Text (seg_na 40 300)"
    "spec_B_line DIVERSE (target_length s) 10 \<noteq> Text (seg_na 40 300)"
    "spec_B_line DIVERSE (target_length s) 25 \<noteq> Text (seg_na 40 300)"
    by (simp_all add: spec_B_line_def spec_B_max_def seg_na_distinct)
  have "stdout (snd (seg_main args)) =
      [Header (target_length s) DIVERSE,
       spec_B_line DIVERSE (target_length s) 2, spec_B_line DIVERSE (target_length s) 5,
       spec_B_line DIVERSE (target_length s) 10, spec_B_line DIVERSE (target_length s) 25,
       Text (seg_na_10 40 300), Footer]"
    using seg_main_stdout [OF assms(1)] assms(2) n by simp
  then show ?thesis
    using o seg_na_10_40_300 seg_na_distinct by simp
qed

theorem seg_diverse_40_below_10_witness:
  "stdout (snd (seg_main [Opt_l (Some 9)])) ! 5 =
      Text ([tab] @ ''~40%'' @ [tab, tab, tab]
            @ ''NA [ target length <10 OR >300, OR K2>4.2]'' @ [nl])
    \<and> Text (seg_na 40 300) \<notin> set (stdout (snd (seg_main [Opt_l (Some 9)])))"
  using seg_diverse_40_below_10 [OF getopt_seg_9]
  by (simp add: seg_init_def)

lemma exp_half_ge: "13 / 8 \<le> exp (1 / 2 :: real)"
  using exp_lower_Taylor_quadratic [of "1 / 2 :: real"] by (simp add: power2_eq_square)

lemma exp_9_half_ge: "65 \<le> exp (9 / 2 :: real)"
proof -
  have "(65 :: real) \<le> (13 / 8) ^ 9" by (simp add: power_divide)
  also have "\<dots> \<le> exp (1 / 2) ^ 9"
    by (rule power_mono [OF exp_half_ge]) simp
  also have "\<dots> = exp (9 / 2)"
    using exp_of_nat_mult [of 9 "1 / 2 :: real"] by simp
  finally show ?thesis .
qed

lemma exp_6_ge: "300 \<le> exp (6 :: real)"
proof -
  have "(300 :: real) \<le> (13 / 8) ^ 12" by (simp add: power_divide)
  also have "\<dots> \<le> exp (1 / 2) ^ 12"
    by (rule power_mono [OF exp_half_ge]) simp
  also have "\<dots> = exp 6"
    using exp_of_nat_mult [of 12 "1 / 2 :: real"] by simp
  finally show ?thesis .
qed

lemma ln_le_of_le_exp:
  assumes "0 < T" and "real_of_int T \<le> exp y"
  shows "ln (real_of_int T) \<le> y"
proof -
  have "ln (real_of_int T) \<le> ln (exp y)"
    using assms by (intro ln_mono) simp_all
  then show ?thesis by simp
qed

lemma ln_le_65: "0 < T \<Longrightarrow> T \<le> 65 \<Longrightarrow> ln (real_of_int T) \<le> 9 / 2"
  using exp_9_half_ge by (intro ln_le_of_le_exp) simp_all

lemma ln_le_300: "0 < T \<Longrightarrow> T \<le> 300 \<Longrightarrow> ln (real_of_int T) \<le> 6"
  using exp_6_ge by (intro ln_le_of_le_exp) simp_all

lemma spec_B_K2_le:
  assumes "5 \<le> T" and "T \<le> 300"
  shows "spec_B_K2 f cov T \<le> 4.2"
proof -
  define x where "x = ln (real_of_int T)"
  have a: "x \<le> 6"
    unfolding x_def using assms by (intro ln_le_300) simp_all
  have b: "T \<le> 65 \<Longrightarrow> x \<le> 9 / 2"
    unfolding x_def using assms by (intro ln_le_65) simp_all
  show ?thesis
    unfolding spec_B_K2_def x_def [symmetric]
    using a b by (cases f) auto
qed

text \<open>
  Claim C10. In SEGparameters.c, for every target length from 5 to 300 and both focus
  modes, every computed \<^verbatim>\<open>K2\<close> is at most 4.2, so the test \<^verbatim>\<open>K2>4.2\<close> never makes a
  row invalid: a row is an NA line exactly when the target length is above the row's upper
  bound, or the focus is DIVERSE, the coverage 40 and the target length below 10.
\<close>
theorem seg_K2_bound_never_fires:
  assumes "getopt_loop args 0 seg_init = Inr (0, s)"
    and "5 \<le> target_length s" and "target_length s \<le> 300"
  shows "(\<forall>x \<in> set (seg_snapshots (header s)). K2 x \<le> Fin 4.2)
    \<and> stdout (snd (seg_main args)) =
        Header (target_length s) (focus s)
          # map (\<lambda>cov.
              if focus s = DIVERSE \<and> cov = 40 \<and> target_length s < 10
              then Text (seg_na_10 cov (spec_B_max (focus s) cov))
              else if target_length s > spec_B_max (focus s) cov
              then Text (seg_na cov (spec_B_max (focus s) cov))
              else Row_LK cov (spec_B_L (focus s) cov (target_length s))
                     (Fin (spec_B_K1 (focus s) cov (target_length s)))
                     (Fin (spec_B_K2 (focus s) cov (target_length s))))
            [2, 5, 10, 25, 40] @ [Footer]"
proof -
  have k: "\<not> spec_B_K2 (focus s) cov (target_length s) > 4.2" for cov
    using spec_B_K2_le [OF assms(2,3), of "focus s" cov] by simp
  have h: "focus (header s) = focus s" "target_length (header s) = target_length s"
    by (simp_all add: header_footer_fields)
  have p: "0 < target_length (header s)" "target_length (header s) \<le> 300"
    using assms(2,3) by (simp_all add: h)
  have "\<forall>r \<in> set (map seg_row_params (seg_snapshots (header s))). fst (snd (snd r)) \<le> Fin 4.2"
    unfolding seg_snapshots_params [OF p] h
    using spec_B_K2_le [OF assms(2,3)] by (simp add: spec_B_row_def)
  then have 1: "\<forall>x \<in> set (seg_snapshots (header s)). K2 x \<le> Fin 4.2"
    by (simp add: seg_row_params_def)
  have 2: "spec_B_line (focus s) (target_length s) cov =
     (if focus s = DIVERSE \<and> cov = 40 \<and> target_length s < 10
              then Text (seg_na_10 cov (spec_B_max (focus s) cov))
              else if target_length s > spec_B_max (focus s) cov
              then Text (seg_na cov (spec_B_max (focus s) cov))
              else Row_LK cov (spec_B_L (focus s) cov (target_length s))
                     (Fin (spec_B_K1 (focus s) cov (target_length s)))
                     (Fin (spec_B_K2 (focus s) cov (target_length s))))" for cov
    using k [of cov] assms(2) by (simp add: spec_B_line_def)
  show ?thesis
    using 1 seg_main_stdout [OF assms(1)] by (simp add: 2)
qed

lemma getopt_seg_narrow_260:
  "getopt_loop [Opt_f ''narrow'', Opt_l (Some 260)] 0 seg_init =
     Inr (0, seg_init\<lparr>focus := NARROW, target_length := 260\<rparr>)"
  by (simp add: case_f_def case_l_def c_when_def seg_init_def sscanf_d_id)

theorem seg_K2_bound_never_fires_witness:
  "stdout (snd (seg_main [Opt_f ''narrow'', Opt_l (Some 260)])) =
     [Header 260 NARROW,
      Text (seg_na 2 250),
      Row_LK 5 260 (Fin (0.355 * ln 260 + 1.731)) (Fin (0.355 * ln 260 + 1.731)),
      Row_LK 10 260 (Fin (0.3 * ln 260 + 2.135)) (Fin (0.3 * ln 260 + 2.135)),
      Row_LK 25 260 (Fin (0.278 * ln 260 + 2.405)) (Fin (0.278 * ln 260 + 2.405)),
      Text (seg_na 40 250),
      Footer]"
  using seg_K2_bound_never_fires [OF getopt_seg_narrow_260]
  by (simp add: seg_init_def spec_B_defs)

section \<open>The option \<^verbatim>\<open>-l\<close>\<close>














end
